theory Spec2Isabelle
  imports Main "HOL-Library.Sublist" "HOL-Library.AList"
begin

text \<open>
  The link resolution engine of graphql-weaver: the schema merger (\<^verbatim>\<open>schema-merger.ts\<close>),
  the link transformer with its argument builder and namespace router and the resolver
  of abstract types (\<^verbatim>\<open>links.ts\<close>), and the later revision of the link transformer
  (\<^verbatim>\<open>part_000\<close>). Functions that return promises are modelled by what the promise settles
  to; state that closures share is passed explicitly.
\<close>

section \<open>Values, errors and the query language\<close>

text \<open>
  Every \<^verbatim>\<open>throw new Error(...)\<close> of the sources is one constructor; the strings
  carried are the names the message interpolates (the rendering of the discriminator by
  \<^verbatim>\<open>JSON.stringify\<close> is left out). \<open>TypeError\<close> is what the JavaScript runtime raises on
  a property read of \<open>null\<close>/\<open>undefined\<close>, on \<open>in\<close> applied to a primitive, and on a call
  of a missing method. \<open>BackendFailure\<close> is a failure the transport reports.
\<close>

datatype error =
    ArgumentMustNotBeEmpty
  | EndpointNotFound string
  | LinkRefersToNonexistentEndpoint string string
  | ExpectedObjectTypeAsQueryType string
  | TypenameDoesNotExist string
  | NoTypeWithThatName string
  | NotAGraphQLObjectType string
  | SchemaQueryMustBeObjectType
  | TypeError
  | BackendFailure string

text \<open>
  The \<^verbatim>\<open>any\<close> values that flow through resolvers. A promise is the value it settles to:
  \<open>JPromise (Inr v)\<close> fulfils with \<open>v\<close>, \<open>JPromise (Inl e)\<close> rejects with \<open>e\<close>.
  An object is its own properties in insertion order.
\<close>

datatype jsval =
    JUndefined
  | JNull
  | JBool bool
  | JNum int
  | JStr string
  | JArr "jsval list"
  | JObj "(string \<times> jsval) list"
  | JPromise "error + jsval"

text \<open>The value nodes \<^verbatim>\<open>links.ts\<close> builds; an \<^verbatim>\<open>ObjectField\<close> is the pair of its name and value.\<close>

datatype ValueNode =
    Variable string
  | ObjectValue "(string \<times> ValueNode) list"
  | IntValue string
  | StringValue string

datatype ArgumentNode = Argument (arg_name: string) (arg_value: ValueNode)

section \<open>The nested argument builder (\<^verbatim>\<open>links.ts\<close>, createNestedArgumentWithVariableNode)\<close>

text \<open>
  \<^verbatim>\<open>String.prototype.split\<close> with a one-character separator: the empty string splits into
  one empty part, and a trailing separator leaves an empty last part.
\<close>

fun js_split :: "char \<Rightarrow> string \<Rightarrow> string list" where
  "js_split sep [] = [[]]"
| "js_split sep (c # cs) =
     (if c = sep then [] # js_split sep cs
      else (case js_split sep cs of
              [] \<Rightarrow> [[c]]
            | p # ps \<Rightarrow> (c # p) # ps))"

text \<open>
  \<^verbatim>\<open>parts.shift()\<close> takes the first part; an empty first part is falsy and throws. The loop
  runs over \<^verbatim>\<open>parts.reverse()\<close> and wraps the value built so far in a one-field object.
\<close>

definition createNestedArgumentWithVariableNode :: "string \<Rightarrow> string \<Rightarrow> error + ArgumentNode" where
  "createNestedArgumentWithVariableNode argumentPath variableName =
     (case js_split CHR ''.'' argumentPath of
        [] \<Rightarrow> Inl ArgumentMustNotBeEmpty
      | argName # parts \<Rightarrow>
          if argName = [] then Inl ArgumentMustNotBeEmpty
          else Inr (Argument argName
                 (fold (\<lambda>part value. ObjectValue [(part, value)]) (rev parts)
                    (Variable variableName))))"

text \<open>The dotted path \<open>s1.s2.....sn\<close> written out from its segments.\<close>

fun dotted :: "string list \<Rightarrow> string" where
  "dotted [] = []"
| "dotted [s] = s"
| "dotted (s # t # ts) = s @ CHR ''.'' # dotted (t # ts)"

section \<open>Types of the schema\<close>

datatype TypeNode = NamedType string | ListType TypeNode | NonNullType TypeNode

text \<open>A field resolver supplied from outside is an opaque function, known by a label.\<close>

type_synonym GraphQLFieldResolver = string

type_synonym GraphQLDirective = string

text \<open>
  The type objects of the schema. An object type carries its field map, each field with
  its type and its \<^verbatim>\<open>resolve\<close> function, in insertion order.
\<close>

datatype GraphQLType =
    GraphQLList GraphQLType
  | GraphQLNonNull GraphQLType
  | GraphQLObjectType string "(string \<times> GraphQLType \<times> GraphQLFieldResolver option) list"
  | GraphQLInterfaceType string
  | GraphQLUnionType string
  | GraphQLScalarType string
  | GraphQLEnumType string
  | GraphQLInputObjectType string

text \<open>\<^verbatim>\<open>type instanceof GraphQLObjectType\<close>\<close>

fun instanceof_GraphQLObjectType :: "GraphQLType \<Rightarrow> bool" where
  "instanceof_GraphQLObjectType (GraphQLObjectType n fs) = True"
| "instanceof_GraphQLObjectType t = False"

record GraphQLSchema =
  queryType :: "GraphQLType option"
  mutationType :: "GraphQLType option"
  subscriptionType :: "GraphQLType option"
  directives :: "GraphQLDirective list"

section \<open>Abstract type resolution (\<^verbatim>\<open>links.ts\<close>, TypeResolversTransformer)\<close>

text \<open>\<^verbatim>\<open>key in obj\<close>: a \<open>TypeError\<close> on a primitive.\<close>

definition js_in :: "string \<Rightarrow> jsval \<Rightarrow> error + bool" where
  "js_in key obj =
     (case obj of
        JObj props \<Rightarrow> Inr (key \<in> set (map fst props))
      | JArr xs \<Rightarrow> Inr False
      | JPromise p \<Rightarrow> Inr False
      | _ \<Rightarrow> Inl TypeError)"

text \<open>
  \<^verbatim>\<open>obj[key]\<close>: a \<open>TypeError\<close> on \<open>null\<close> and \<open>undefined\<close>, \<open>undefined\<close> for a missing
  property. Only the own properties of an object are read: what JavaScript finds along
  the prototype chain (\<^verbatim>\<open>length\<close> of a string or an array, \<^verbatim>\<open>then\<close> of a promise, the
  methods of \<^verbatim>\<open>Object.prototype\<close>) is left out, the keys read here being response keys of
  a selection.
\<close>

definition get_prop :: "jsval \<Rightarrow> string \<Rightarrow> error + jsval" where
  "get_prop obj key =
     (case obj of
        JObj props \<Rightarrow> Inr (case map_of props key of None \<Rightarrow> JUndefined | Some v \<Rightarrow> v)
      | JUndefined \<Rightarrow> Inl TypeError
      | JNull \<Rightarrow> Inl TypeError
      | _ \<Rightarrow> Inr JUndefined)"

record SchemaTransformationContext =
  findType :: "jsval \<Rightarrow> GraphQLType option"

record GraphQLObjectTypeConfig =
  object_name :: string
  isTypeOf :: "(jsval \<Rightarrow> bool) option"

record AbstractTypeConfig =
  abstract_name :: string
  config_resolveType :: "(jsval \<Rightarrow> error + GraphQLType) option"

definition transformObjectType :: "GraphQLObjectTypeConfig \<Rightarrow> GraphQLObjectTypeConfig" where
  "transformObjectType config = config\<lparr>isTypeOf := None\<rparr>"

text \<open>
  The function installed as \<^verbatim>\<open>config.resolveType\<close>; it closes over the name of the
  abstract type and the transformation context. Its promise rejects where the body throws.
\<close>

definition resolveType ::
  "string \<Rightarrow> SchemaTransformationContext \<Rightarrow> jsval \<Rightarrow> error + GraphQLType" where
  "resolveType config_name context obj =
     (case js_in ''__typename'' obj of
        Inl e \<Rightarrow> Inl e
      | Inr False \<Rightarrow> Inl (TypenameDoesNotExist config_name)
      | Inr True \<Rightarrow>
          (case get_prop obj ''__typename'' of
             Inl e \<Rightarrow> Inl e
           | Inr tn \<Rightarrow>
               (case findType context tn of
                  None \<Rightarrow> Inl (NoTypeWithThatName config_name)
                | Some type \<Rightarrow>
                    if \<not> instanceof_GraphQLObjectType type
                    then Inl (NotAGraphQLObjectType config_name)
                    else Inr type)))"

definition transformAbstractType ::
  "AbstractTypeConfig \<Rightarrow> SchemaTransformationContext \<Rightarrow> AbstractTypeConfig" where
  "transformAbstractType config context =
     config\<lparr>config_resolveType := Some (resolveType (abstract_name config) context)\<rparr>"

definition transformInterfaceType ::
  "AbstractTypeConfig \<Rightarrow> SchemaTransformationContext \<Rightarrow> AbstractTypeConfig" where
  "transformInterfaceType = transformAbstractType"

definition transformUnionType ::
  "AbstractTypeConfig \<Rightarrow> SchemaTransformationContext \<Rightarrow> AbstractTypeConfig" where
  "transformUnionType = transformAbstractType"

text \<open>The discriminator of a resolved value, when it has one.\<close>

definition discriminator :: "jsval \<Rightarrow> jsval option" where
  "discriminator obj = (case obj of JObj props \<Rightarrow> map_of props ''__typename'' | _ \<Rightarrow> None)"

section \<open>The schema merger (\<^verbatim>\<open>schema-merger.ts\<close>)\<close>

record NamedSchema =
  namespace :: string
  schema :: GraphQLSchema
  queryResolver :: "GraphQLFieldResolver option"
  mutationResolver :: "GraphQLFieldResolver option"
  subscriptionResolver :: "GraphQLFieldResolver option"

record FieldConfig =
  fc_namespace :: string
  fc_type :: "GraphQLType option"
  fc_resolver :: "GraphQLFieldResolver option"

text \<open>
  \<^verbatim>\<open>fields[namespace] = {type, resolve: resolver}\<close> on the object \<^verbatim>\<open>fields\<close>: a namespace
  seen before keeps its place and takes the new value, a new one goes to the end. A
  namespace is the name of a field, so it is none of the keys JavaScript treats apart
  (an array index, \<^verbatim>\<open>__proto__\<close>).
\<close>

definition createRootFieldMaybe :: "string \<Rightarrow> FieldConfig list \<Rightarrow> GraphQLType option" where
  "createRootFieldMaybe root_name types =
     (let fields =
        fold (\<lambda>fc fields.
                case fc_type fc of
                  None \<Rightarrow> fields
                | Some type \<Rightarrow> AList.update (fc_namespace fc) (type, fc_resolver fc) fields)
             types []
      in if length (map fst fields) = 0 then None
         else Some (GraphQLObjectType root_name fields))"

text \<open>
  \<^verbatim>\<open>new GraphQLSchema\<close> of the graphql library: the query type of its configuration must be
  an object type, and the constructor throws when it is \<open>undefined\<close>. The source asserts
  this of the query root it passes (\<^verbatim>\<open>createRootFieldMaybe('Query', ...)!\<close>).
\<close>

definition new_GraphQLSchema :: "GraphQLSchema \<Rightarrow> error + GraphQLSchema" where
  "new_GraphQLSchema config =
     (case queryType config of
        None \<Rightarrow> Inl SchemaQueryMustBeObjectType
      | Some query \<Rightarrow> Inr config)"

text \<open>
  \<^verbatim>\<open>isNativeDirective\<close> (\<^verbatim>\<open>native-symbols.ts\<close>) and \<^verbatim>\<open>specifiedDirectives\<close> (the graphql
  library) are not among the sources and are taken as parameters.
\<close>

definition mergeSchemas ::
  "(GraphQLDirective \<Rightarrow> bool) \<Rightarrow> GraphQLDirective list \<Rightarrow> NamedSchema list \<Rightarrow>
   error + GraphQLSchema" where
  "mergeSchemas isNativeDirective specifiedDirectives schemas =
     (let query = createRootFieldMaybe ''Query''
            (map (\<lambda>s. \<lparr>fc_namespace = namespace s, fc_type = queryType (schema s),
                        fc_resolver = queryResolver s\<rparr>) schemas);
          mutation = createRootFieldMaybe ''Mutation''
            (map (\<lambda>s. \<lparr>fc_namespace = namespace s, fc_type = mutationType (schema s),
                        fc_resolver = mutationResolver s\<rparr>) schemas);
          subscription = createRootFieldMaybe ''Subscription''
            (map (\<lambda>s. \<lparr>fc_namespace = namespace s, fc_type = subscriptionType (schema s),
                        fc_resolver = subscriptionResolver s\<rparr>) schemas);
          ds = foldl (\<lambda>a b. a @ b) []
                 (map (\<lambda>s. filter (\<lambda>d. \<not> isNativeDirective d) (directives (schema s))) schemas)
               @ specifiedDirectives
      in new_GraphQLSchema
           \<lparr>queryType = query, mutationType = mutation, subscriptionType = subscription,
            directives = ds\<rparr>)"

text \<open>The root fields one operation kind contributes: one per schema that has that root.\<close>

definition contributed ::
  "(NamedSchema \<Rightarrow> GraphQLType option) \<Rightarrow> (NamedSchema \<Rightarrow> GraphQLFieldResolver option) \<Rightarrow>
   NamedSchema list \<Rightarrow> (string \<times> GraphQLType \<times> GraphQLFieldResolver option) list" where
  "contributed root resolver schemas =
     List.map_filter (\<lambda>s. map_option (\<lambda>t. (namespace s, t, resolver s)) (root s)) schemas"

section \<open>The namespace router (\<^verbatim>\<open>links.ts\<close>, splitTypeName)\<close>

record LinkConfig =
  endpoint :: string
  field :: string
  argument :: string
  batchMode :: bool
  keyField :: "string option"

record EndpointConfig =
  endpoint_name :: string
  url :: string
  links :: "(string \<times> LinkConfig) list"

record SplitTypeName =
  split_endpoint :: string
  originalTypeName :: string

text \<open>
  \<^verbatim>\<open>getTypePrefix\<close> (\<^verbatim>\<open>renaming.ts\<close>) is not among the sources and is a parameter. The loop
  returns at the first endpoint, in the order configured, whose prefix starts the name.
\<close>

fun splitTypeName ::
  "(EndpointConfig \<Rightarrow> string) \<Rightarrow> EndpointConfig list \<Rightarrow> string \<Rightarrow> SplitTypeName option" where
  "splitTypeName getTypePrefix [] mergedName = None"
| "splitTypeName getTypePrefix (e # es) mergedName =
     (let p = getTypePrefix e
      in if prefix p mergedName
         then Some \<lparr>split_endpoint = endpoint_name e,
                    originalTypeName = drop (length p) mergedName\<rparr>
         else splitTypeName getTypePrefix es mergedName)"

section \<open>Query documents and the resolution context\<close>

text \<open>A selection set is the list of its selections; a field without one has the empty list.\<close>

datatype SelectionNode =
    Field "string option" string "ArgumentNode list" "SelectionNode list"
  | FragmentSpread string
  | InlineFragment "string option" "SelectionNode list"

datatype VariableDefinitionNode = VariableDefinition string TypeNode

datatype FragmentDefinitionNode = FragmentDefinition string string "SelectionNode list"

record OperationDefinitionNode =
  operation :: string
  variableDefinitions :: "VariableDefinitionNode list option"
  selectionSet :: "SelectionNode list"

datatype DefinitionNode =
    FragmentDef FragmentDefinitionNode
  | OperationDef OperationDefinitionNode

datatype DocumentNode = Document "DefinitionNode list"

record GraphQLResolveInfo =
  fieldNodes :: "SelectionNode list"
  info_fragments :: "FragmentDefinitionNode list"
  info_operation :: OperationDefinitionNode
  info_variableValues :: "(string \<times> jsval) list"

fun createTypeNode :: "GraphQLType \<Rightarrow> TypeNode" where
  "createTypeNode (GraphQLList ofType) = ListType (createTypeNode ofType)"
| "createTypeNode (GraphQLNonNull ofType) = NonNullType (createTypeNode ofType)"
| "createTypeNode (GraphQLObjectType n fs) = NamedType n"
| "createTypeNode (GraphQLInterfaceType n) = NamedType n"
| "createTypeNode (GraphQLUnionType n) = NamedType n"
| "createTypeNode (GraphQLScalarType n) = NamedType n"
| "createTypeNode (GraphQLEnumType n) = NamedType n"
| "createTypeNode (GraphQLInputObjectType n) = NamedType n"

definition createVariableDefinitionNode :: "string \<Rightarrow> GraphQLType \<Rightarrow> VariableDefinitionNode" where
  "createVariableDefinitionNode varName type = VariableDefinition varName (createTypeNode type)"

text \<open>\<^verbatim>\<open>getNamedType\<close> of the graphql library strips every list and non-null wrapper.\<close>

fun getNamedType :: "GraphQLType \<Rightarrow> GraphQLType" where
  "getNamedType (GraphQLList ofType) = getNamedType ofType"
| "getNamedType (GraphQLNonNull ofType) = getNamedType ofType"
| "getNamedType t = t"

fun getNonNullType :: "GraphQLType \<Rightarrow> GraphQLType" where
  "getNonNullType (GraphQLNonNull ofType) = GraphQLNonNull ofType"
| "getNonNullType t = GraphQLNonNull t"

text \<open>\<^verbatim>\<open>type.name\<close>: a wrapper type has none.\<close>

fun type_name :: "GraphQLType \<Rightarrow> string option" where
  "type_name (GraphQLList ofType) = None"
| "type_name (GraphQLNonNull ofType) = None"
| "type_name (GraphQLObjectType n fs) = Some n"
| "type_name (GraphQLInterfaceType n) = Some n"
| "type_name (GraphQLUnionType n) = Some n"
| "type_name (GraphQLScalarType n) = Some n"
| "type_name (GraphQLEnumType n) = Some n"
| "type_name (GraphQLInputObjectType n) = Some n"

text \<open>Truthiness of a value: \<open>undefined\<close>, \<open>null\<close>, \<open>false\<close>, \<open>0\<close> and the empty string are falsy.\<close>

fun truthy :: "jsval \<Rightarrow> bool" where
  "truthy JUndefined = False"
| "truthy JNull = False"
| "truthy (JBool b) = b"
| "truthy (JNum n) = (n \<noteq> 0)"
| "truthy (JStr s) = (s \<noteq> [])"
| "truthy v = True"

text \<open>
  The equality of \<^verbatim>\<open>Map\<close> keys: primitives are equal by value. Objects, arrays and promises
  are equal by identity, and a key read off a result item is never the object requested.
\<close>

fun primitive :: "jsval \<Rightarrow> bool" where
  "primitive (JArr xs) = False"
| "primitive (JObj props) = False"
| "primitive (JPromise p) = False"
| "primitive v = True"

definition same_value_zero :: "jsval \<Rightarrow> jsval \<Rightarrow> bool" where
  "same_value_zero a b = (primitive a \<and> a = b)"

text \<open>\<^verbatim>\<open>new Map(entries).get(key)\<close>: a later entry replaces an earlier one of the same key.\<close>

definition map_get :: "(jsval \<times> jsval) list \<Rightarrow> jsval \<Rightarrow> jsval" where
  "map_get entries key =
     (case find (\<lambda>entry. same_value_zero (fst entry) key) (rev entries) of
        None \<Rightarrow> JUndefined
      | Some entry \<Rightarrow> snd entry)"

text \<open>\<^verbatim>\<open>link.keyField\<close> where it is tested: an absent or empty name is falsy.\<close>

definition keyField_set :: "LinkConfig \<Rightarrow> string option" where
  "keyField_set link =
     (case keyField link of None \<Rightarrow> None | Some kf \<Rightarrow> if kf = [] then None else Some kf)"

text \<open>
  \<^verbatim>\<open>result.map(item => [item[k], item])\<close> followed by \<^verbatim>\<open>keys.map(key => map.get(key))\<close>. The
  first item that is \<open>null\<close> or \<open>undefined\<close> throws; a result without \<^verbatim>\<open>map\<close> throws.
\<close>

fun entries_by :: "string \<Rightarrow> jsval list \<Rightarrow> error + (jsval \<times> jsval) list" where
  "entries_by k [] = Inr []"
| "entries_by k (item # items) =
     (case get_prop item k of
        Inl e \<Rightarrow> Inl e
      | Inr v \<Rightarrow>
          (case entries_by k items of
             Inl e \<Rightarrow> Inl e
           | Inr entries \<Rightarrow> Inr ((v, item) # entries)))"

definition remap :: "string \<Rightarrow> jsval \<Rightarrow> jsval list \<Rightarrow> error + jsval" where
  "remap k result keys =
     (case result of
        JArr items \<Rightarrow>
          (case entries_by k items of
             Inl e \<Rightarrow> Inl e
           | Inr entries \<Rightarrow> Inr (JArr (map (map_get entries) keys)))
      | _ \<Rightarrow> Inl TypeError)"

section \<open>Link resolution, the revision in \<^verbatim>\<open>links.ts\<close>\<close>

text \<open>What \<^verbatim>\<open>resolveAsProxy\<close> hands to the \<^verbatim>\<open>transform\<close> callback and takes back.\<close>

record ProxyQuery =
  pq_operation :: OperationDefinitionNode
  pq_fragments :: "FragmentDefinitionNode list"
  pq_variables :: "(string \<times> jsval) list"

record ProxyConfig =
  pc_url :: string
  pc_operation :: string
  pc_links :: "(string \<times> LinkConfig) list"
  pc_typeRenamer :: "string \<Rightarrow> string"
  pc_transform :: "ProxyQuery \<Rightarrow> error + ProxyQuery"

definition varName :: string where
  "varName = ''param''"

text \<open>
  The \<^verbatim>\<open>transform\<close> callback of \<^verbatim>\<open>basicResolve\<close>. The spread of \<^verbatim>\<open>operation\<close> keeps what is not
  overwritten; the spread of \<^verbatim>\<open>variables\<close> followed by \<^verbatim>\<open>[varName]: value\<close> overwrites a
  variable of that name.
\<close>

definition links_ts_transform ::
  "LinkConfig \<Rightarrow> GraphQLType \<Rightarrow> jsval \<Rightarrow> ProxyQuery \<Rightarrow> error + ProxyQuery" where
  "links_ts_transform link originalType value q =
     (case createNestedArgumentWithVariableNode (argument link) varName of
        Inl e \<Rightarrow> Inl e
      | Inr arg \<Rightarrow>
          Inr \<lparr>pq_operation = (pq_operation q)
                 \<lparr>operation := ''query'',
                  variableDefinitions := Some
                    ((case variableDefinitions (pq_operation q) of None \<Rightarrow> [] | Some ds \<Rightarrow> ds)
                     @ [createVariableDefinitionNode varName
                          (if batchMode link
                           then GraphQLNonNull (GraphQLList (GraphQLNonNull originalType))
                           else originalType)]),
                  selectionSet :=
                    [Field None (field link) [arg]
                       (selectionSet (pq_operation q)
                        @ (case keyField_set link of
                             None \<Rightarrow> []
                           | Some kf \<Rightarrow> [Field None kf [] []]))]\<rparr>,
               pq_fragments = pq_fragments q,
               pq_variables = AList.update varName value (pq_variables q)\<rparr>)"

text \<open>
  \<^verbatim>\<open>resolveAsProxy\<close> (\<^verbatim>\<open>proxy-resolver.ts\<close>) and \<^verbatim>\<open>getReverseTypeRenamer\<close> (\<^verbatim>\<open>renaming.ts\<close>) are
  not among the sources and are parameters; the first returns what its promise settles to.
\<close>

definition links_ts_basicResolve ::
  "(GraphQLResolveInfo \<Rightarrow> ProxyConfig \<Rightarrow> error + jsval) \<Rightarrow> (EndpointConfig \<Rightarrow> string \<Rightarrow> string) \<Rightarrow>
   (string \<times> LinkConfig) list \<Rightarrow> EndpointConfig \<Rightarrow> LinkConfig \<Rightarrow> GraphQLType \<Rightarrow>
   jsval \<Rightarrow> GraphQLResolveInfo \<Rightarrow> error + jsval" where
  "links_ts_basicResolve resolveAsProxy getReverseTypeRenamer all_links targetEndpoint link
     originalType value info =
     (case resolveAsProxy info
             \<lparr>pc_url = url targetEndpoint, pc_operation = ''query'', pc_links = all_links,
              pc_typeRenamer = getReverseTypeRenamer targetEndpoint,
              pc_transform = links_ts_transform link originalType value\<rparr> of
        Inl e \<Rightarrow> Inl e
      | Inr obj \<Rightarrow> get_prop obj (field link))"

text \<open>
  \<^verbatim>\<open>resolveBatch\<close> of \<^verbatim>\<open>links.ts\<close>, over its \<^verbatim>\<open>basicResolve\<close>. Without batch mode \<^verbatim>\<open>await\<close> is
  applied to the array of promises and leaves it as it is. The remapping is skipped only
  when \<^verbatim>\<open>link.keyField\<close> is falsy.
\<close>

definition links_ts_resolveBatch ::
  "(jsval \<Rightarrow> GraphQLResolveInfo \<Rightarrow> error + jsval) \<Rightarrow> LinkConfig \<Rightarrow>
   jsval list \<Rightarrow> GraphQLResolveInfo \<Rightarrow> error + jsval" where
  "links_ts_resolveBatch basicResolve link keys info =
     (case (if batchMode link then basicResolve (JArr keys) info
            else Inr (JArr (map (\<lambda>key. JPromise (basicResolve key info)) keys))) of
        Inl e \<Rightarrow> Inl e
      | Inr result \<Rightarrow>
          (case keyField_set link of
             None \<Rightarrow> Inr result
           | Some kf \<Rightarrow> remap kf result keys))"

section \<open>Link resolution, the revision in \<^verbatim>\<open>part_000\<close>\<close>

record QueryParts =
  qp_fragments :: "FragmentDefinitionNode list"
  qp_variableDefinitions :: "VariableDefinitionNode list"
  qp_variableValues :: "(string \<times> jsval) list"
  qp_selectionSet :: "SelectionNode list"

text \<open>
  The functions \<^verbatim>\<open>part_000\<close> imports from \<^verbatim>\<open>field-as-query.ts\<close>, \<^verbatim>\<open>language-utils.ts\<close> and
  \<^verbatim>\<open>utils.ts\<close>, none of them among the sources, as parameters.
  \<^verbatim>\<open>addVariableDefinitionSafely\<close> returns the extended definitions and the name chosen,
  \<^verbatim>\<open>addFieldSelectionSafely\<close> the alias chosen and the extended selection set.
\<close>

record Imports =
  getFieldAsQueryParts :: "GraphQLResolveInfo \<Rightarrow> QueryParts"
  addVariableDefinitionSafely ::
    "VariableDefinitionNode list \<Rightarrow> string \<Rightarrow> GraphQLType \<Rightarrow> VariableDefinitionNode list \<times> string"
  addFieldSelectionSafely ::
    "SelectionNode list \<Rightarrow> string \<Rightarrow> (string \<times> FragmentDefinitionNode) list \<Rightarrow>
     string \<times> SelectionNode list"
  arrayToObject ::
    "FragmentDefinitionNode list \<Rightarrow> (FragmentDefinitionNode \<Rightarrow> string) \<Rightarrow>
     (string \<times> FragmentDefinitionNode) list"

text \<open>The \<^verbatim>\<open>query\<close> method of a target endpoint: what the promise of a dispatch settles to.\<close>

type_synonym Endpoint = "DocumentNode \<Rightarrow> (string \<times> jsval) list \<Rightarrow> error + jsval"

text \<open>
  The state the closures of one link share: the variable \<^verbatim>\<open>keyFieldAlias\<close>, and the
  dispatches made so far through \<^verbatim>\<open>targetEndpoint.query\<close>, in order.
\<close>

record LinkState =
  keyFieldAlias :: "string option"
  dispatched :: "(DocumentNode \<times> (string \<times> jsval) list) list"

fun fragment_name :: "FragmentDefinitionNode \<Rightarrow> string" where
  "fragment_name (FragmentDefinition n c sel) = n"

text \<open>
  \<^verbatim>\<open>basicResolve\<close>: everything up to the call of \<^verbatim>\<open>targetEndpoint.query\<close> runs when the
  function is called, so the dispatch is made then; the result is what the promise
  returned settles to. A throw of the argument builder rejects it before any dispatch.
\<close>

definition part_000_basicResolve ::
  "Imports \<Rightarrow> Endpoint \<Rightarrow> LinkConfig \<Rightarrow> GraphQLType \<Rightarrow>
   jsval \<Rightarrow> GraphQLResolveInfo \<Rightarrow> LinkState \<Rightarrow> (error + jsval) \<times> LinkState" where
  "part_000_basicResolve imports targetEndpoint link originalType value info st =
     (let parts = getFieldAsQueryParts imports info;
          varType = (if batchMode link
                     then GraphQLNonNull (GraphQLList (getNonNullType originalType))
                     else originalType);
          varNameBase = last (js_split CHR ''.'' (argument link));
          (extVariableDefinitions, var) =
             addVariableDefinitionSafely imports (qp_variableDefinitions parts) varNameBase varType;
          (st1, extSelectionSet) =
             (case keyField_set link of
                None \<Rightarrow> (st, qp_selectionSet parts)
              | Some kf \<Rightarrow>
                  if batchMode link
                  then (let (alias, newSelectionSet) =
                              addFieldSelectionSafely imports (qp_selectionSet parts) kf
                                (arrayToObject imports (qp_fragments parts) fragment_name)
                        in (st\<lparr>keyFieldAlias := Some alias\<rparr>, newSelectionSet))
                  else (st, qp_selectionSet parts))
      in case createNestedArgumentWithVariableNode (argument link) var of
           Inl e \<Rightarrow> (Inl e, st1)
         | Inr arg \<Rightarrow>
             (let document = Document
                    (map FragmentDef (qp_fragments parts)
                     @ [OperationDef
                          \<lparr>operation = ''query'',
                           variableDefinitions = Some extVariableDefinitions,
                           selectionSet = [Field None (field link) [arg] extSelectionSet]\<rparr>]);
                  variableValues = AList.update var value (qp_variableValues parts);
                  st2 = st1\<lparr>dispatched := dispatched st1 @ [(document, variableValues)]\<rparr>
              in case targetEndpoint document variableValues of
                   Inl e \<Rightarrow> (Inl e, st2)
                 | Inr obj \<Rightarrow> (get_prop obj (field link), st2)))"

text \<open>\<^verbatim>\<open>keys.map(key => basicResolve(key, info))\<close>: one promise per key, the calls made in key order.\<close>

fun keys_map ::
  "(jsval \<Rightarrow> LinkState \<Rightarrow> (error + jsval) \<times> LinkState) \<Rightarrow> jsval list \<Rightarrow> LinkState \<Rightarrow>
   jsval list \<times> LinkState" where
  "keys_map f [] st = ([], st)"
| "keys_map f (key # keys) st =
     (let (r, st1) = f key st;
          (rs, st2) = keys_map f keys st1
      in (JPromise r # rs, st2))"

text \<open>
  \<^verbatim>\<open>resolveBatch\<close> of \<^verbatim>\<open>part_000\<close>. With batch mode the one promise is awaited and its
  rejection rejects the batch. While the function waits at its \<^verbatim>\<open>await\<close>, batches of other
  requests for the same link field may run their own \<^verbatim>\<open>basicResolve\<close>: they share the
  variable \<^verbatim>\<open>keyFieldAlias\<close> and the endpoint. What they do to the shared state in the
  meantime is the parameter \<open>meanwhile\<close>. The remapping reads \<^verbatim>\<open>keyFieldAlias\<close> after the
  wait; it is \<open>undefined\<close> until some \<^verbatim>\<open>basicResolve\<close> has set it.
\<close>

definition part_000_resolveBatch ::
  "Imports \<Rightarrow> Endpoint \<Rightarrow> LinkConfig \<Rightarrow> GraphQLType \<Rightarrow> (LinkState \<Rightarrow> LinkState) \<Rightarrow>
   jsval list \<Rightarrow> GraphQLResolveInfo \<Rightarrow> LinkState \<Rightarrow> (error + jsval) \<times> LinkState" where
  "part_000_resolveBatch imports targetEndpoint link originalType meanwhile keys info st =
     (let (awaited, st1) =
            (if batchMode link
             then part_000_basicResolve imports targetEndpoint link originalType (JArr keys) info st
             else (let (promises, st') =
                         keys_map (\<lambda>key. part_000_basicResolve imports targetEndpoint link
                                            originalType key info) keys st
                   in (Inr (JArr promises), st')));
          st2 = meanwhile st1
      in case awaited of
           Inl e \<Rightarrow> (Inl e, st2)
         | Inr result \<Rightarrow>
             if \<not> batchMode link \<or> keyField_set link = None then (Inr result, st2)
             else (remap (case keyFieldAlias st2 of None \<Rightarrow> ''undefined'' | Some a \<Rightarrow> a)
                     result keys, st2))"

section \<open>The resolver installed on a link field (both revisions)\<close>

text \<open>
  Modelled from the spec: the \<^verbatim>\<open>dataloader\<close> library is not among the sources. A loader
  holds its batch function, here the \<^verbatim>\<open>info\<close> that \<^verbatim>\<open>keys => resolveBatch(keys, info)\<close> closes
  over, and the keys requested since the last flush, duplicates included; \<^verbatim>\<open>load\<close> appends a
  key and returns the future of its position, and a flush calls the batch function once
  on the whole list.
\<close>

record DataLoader =
  batch_info :: GraphQLResolveInfo
  queue :: "jsval list"

definition load :: "DataLoader \<Rightarrow> jsval \<Rightarrow> nat \<times> DataLoader" where
  "load dataLoader key = (length (queue dataLoader), dataLoader\<lparr>queue := queue dataLoader @ [key]\<rparr>)"

definition flush :: "(jsval list \<Rightarrow> GraphQLResolveInfo \<Rightarrow> 'r) \<Rightarrow> DataLoader \<Rightarrow> 'r" where
  "flush batchFn dataLoader = batchFn (queue dataLoader) (batch_info dataLoader)"

text \<open>What the resolver returns: the value itself, or the future of a load.\<close>

datatype resolved = Returned jsval | Future nat

text \<open>
  \<^verbatim>\<open>config.resolve\<close>. The table \<^verbatim>\<open>dataLoaders\<close> is a \<^verbatim>\<open>WeakMap\<close> from context objects, which
  are known by their identity \<open>'c\<close>, to loaders.
\<close>

definition resolve ::
  "('c \<Rightarrow> DataLoader option) \<Rightarrow> jsval \<Rightarrow> 'c \<Rightarrow> GraphQLResolveInfo \<Rightarrow>
   (error + resolved) \<times> ('c \<Rightarrow> DataLoader option)" where
  "resolve dataLoaders source context info =
     (case fieldNodes info of
        Field alias fname args sel # rest \<Rightarrow>
          (case get_prop source (case alias of None \<Rightarrow> fname | Some a \<Rightarrow> a) of
             Inl e \<Rightarrow> (Inl e, dataLoaders)
           | Inr value \<Rightarrow>
               if \<not> truthy value then (Inr (Returned value), dataLoaders)
               else (let dataLoader = (case dataLoaders context of
                                         None \<Rightarrow> \<lparr>batch_info = info, queue = []\<rparr>
                                       | Some dl \<Rightarrow> dl);
                         (future, loaded) = load dataLoader value
                     in (Inr (Future future), dataLoaders(context \<mapsto> loaded))))
      | _ \<Rightarrow> (Inl TypeError, dataLoaders))"

text \<open>The resolver invocations of one request, in order: the loader table they leave.\<close>

fun resolve_all ::
  "('c \<Rightarrow> DataLoader option) \<Rightarrow> 'c \<Rightarrow> (jsval \<times> GraphQLResolveInfo) list \<Rightarrow>
   ('c \<Rightarrow> DataLoader option)" where
  "resolve_all dataLoaders context [] = dataLoaders"
| "resolve_all dataLoaders context ((source, info) # calls) =
     resolve_all (snd (resolve dataLoaders source context info)) context calls"

text \<open>The link value an invocation reads off its parent object, when the read succeeds.\<close>

definition link_value :: "jsval \<Rightarrow> GraphQLResolveInfo \<Rightarrow> jsval option" where
  "link_value source info =
     (case fieldNodes info of
        Field alias fname args sel # rest \<Rightarrow>
          (case get_prop source (case alias of None \<Rightarrow> fname | Some a \<Rightarrow> a) of
             Inl e \<Rightarrow> None
           | Inr value \<Rightarrow> Some value)
      | _ \<Rightarrow> None)"

text \<open>The invocations that reach the loader, each with its link value.\<close>

definition loading :: "(jsval \<times> GraphQLResolveInfo) list \<Rightarrow> (jsval \<times> GraphQLResolveInfo) list" where
  "loading calls =
     List.map_filter
       (\<lambda>(source, info). case link_value source info of
                            None \<Rightarrow> None
                          | Some value \<Rightarrow> if truthy value then Some (value, info) else None)
       calls"

section \<open>Installing the resolver (\<^verbatim>\<open>links.ts\<close>, transformField)\<close>

text \<open>
  The \<^verbatim>\<open>resolve\<close> of a field configuration: a function supplied from outside, or the link
  resolver with the link, the original type and the target endpoint it closes over.
\<close>

datatype FieldResolver =
    SuppliedResolver GraphQLFieldResolver
  | LinkResolver LinkConfig GraphQLType EndpointConfig

record GraphQLNamedFieldConfig =
  config_name :: string
  config_type :: GraphQLType
  config_resolve :: "FieldResolver option"

record FieldTransformationContext =
  oldOuterType :: GraphQLType
  mapType :: "GraphQLType \<Rightarrow> GraphQLType"

text \<open>\<^verbatim>\<open>new Map(endpoints.map(endpoint => [endpoint.name, endpoint]))\<close> and its \<^verbatim>\<open>get\<close>.\<close>

definition endpointMap_get :: "EndpointConfig list \<Rightarrow> string \<Rightarrow> EndpointConfig option" where
  "endpointMap_get endpoints n = map_of (rev (map (\<lambda>e. (endpoint_name e, e)) endpoints)) n"

text \<open>
  \<^verbatim>\<open>transformField\<close> runs once per field while the composite schema is built. It returns the
  configuration unchanged where the source returns early, and an error where it throws.
  An outer type without a name makes \<^verbatim>\<open>startsWith\<close> throw in the first round of the loop
  of \<^verbatim>\<open>splitTypeName\<close>; a missing field makes the read of its \<^verbatim>\<open>type\<close> throw.
\<close>

definition transformField ::
  "(EndpointConfig \<Rightarrow> string) \<Rightarrow> EndpointConfig list \<Rightarrow> GraphQLSchema \<Rightarrow>
   GraphQLNamedFieldConfig \<Rightarrow> FieldTransformationContext \<Rightarrow> error + GraphQLNamedFieldConfig" where
  "transformField getTypePrefix endpoints merged config context =
     (case type_name (oldOuterType context) of
        None \<Rightarrow> if endpoints = [] then Inr config else Inl TypeError
      | Some outer \<Rightarrow>
     (case splitTypeName getTypePrefix endpoints outer of
        None \<Rightarrow> Inr config
      | Some split \<Rightarrow>
     (case endpointMap_get endpoints (split_endpoint split) of
        None \<Rightarrow> Inl (EndpointNotFound (split_endpoint split))
      | Some ep \<Rightarrow>
     (let linkName = originalTypeName split @ ''.'' @ config_name config
      in case map_of (links ep) linkName of
        None \<Rightarrow> Inr config
      | Some link \<Rightarrow>
     (case endpointMap_get endpoints (endpoint link) of
        None \<Rightarrow> Inl (LinkRefersToNonexistentEndpoint linkName (endpoint link))
      | Some targetEndpoint \<Rightarrow>
     (case queryType merged of
        None \<Rightarrow> Inl TypeError
      | Some (GraphQLObjectType qn qfields) \<Rightarrow>
          (case map_of qfields (endpoint_name targetEndpoint) of
             None \<Rightarrow> Inl TypeError
           | Some (GraphQLObjectType en efields, r) \<Rightarrow>
               (case map_of efields (field link) of
                  None \<Rightarrow> Inl TypeError
                | Some (ftype, fr) \<Rightarrow>
                    Inr (config\<lparr>config_type := getNamedType (mapType context ftype),
                                config_resolve := Some (LinkResolver link (config_type config)
                                                          targetEndpoint)\<rparr>))
           | Some (other, r) \<Rightarrow>
               Inl (ExpectedObjectTypeAsQueryType (endpoint_name targetEndpoint)))
      | Some other \<Rightarrow> Inl TypeError))))))"

section \<open>Notions the properties are stated with\<close>

text \<open>
  The result item a requested key is matched to: the last item whose value under \<open>k\<close>
  equals the key, and \<open>undefined\<close> when there is none.
\<close>

definition item_for :: "string \<Rightarrow> jsval list \<Rightarrow> jsval \<Rightarrow> jsval" where
  "item_for k items key =
     (case filter (\<lambda>item. case get_prop item k of
                            Inl e \<Rightarrow> False
                          | Inr v \<Rightarrow> same_value_zero v key) items of
        [] \<Rightarrow> JUndefined
      | found \<Rightarrow> last found)"

text \<open>The variable names a list of definitions declares, and the response keys of the fields of a selection set.\<close>

definition variable_names :: "VariableDefinitionNode list \<Rightarrow> string list" where
  "variable_names ds = map (\<lambda>d. case d of VariableDefinition n t \<Rightarrow> n) ds"

definition response_keys :: "SelectionNode list \<Rightarrow> string list" where
  "response_keys sels =
     List.map_filter
       (\<lambda>s. case s of
              Field alias fname args sel \<Rightarrow> Some (case alias of None \<Rightarrow> fname | Some a \<Rightarrow> a)
            | _ \<Rightarrow> None)
       sels"

section \<open>Example configurations\<close>

text \<open>
  A backend \<open>users\<close> whose field \<open>user\<close> answers one key with one object and a list of keys
  with the objects in reverse order, and a stand-in for \<^verbatim>\<open>resolveAsProxy\<close> that applies the
  \<^verbatim>\<open>transform\<close> callback to the caller's query and asks that backend.
\<close>

definition ex_users :: "jsval option \<Rightarrow> jsval" where
  "ex_users param =
     (case param of
        Some (JArr keys) \<Rightarrow>
          JObj [(''user'', JArr (map (\<lambda>key. JObj [(''id'', key), (''name'', JStr ''ann'')]) (rev keys)))]
      | Some key \<Rightarrow> JObj [(''user'', JObj [(''id'', key), (''name'', JStr ''ann'')])]
      | None \<Rightarrow> JObj [(''user'', JNull)])"

definition ex_resolveAsProxy :: "GraphQLResolveInfo \<Rightarrow> ProxyConfig \<Rightarrow> error + jsval" where
  "ex_resolveAsProxy info proxy =
     (case fieldNodes info of
        Field alias fname args sel # rest \<Rightarrow>
          (case pc_transform proxy
                  \<lparr>pq_operation = (info_operation info)\<lparr>selectionSet := sel\<rparr>,
                   pq_fragments = info_fragments info,
                   pq_variables = info_variableValues info\<rparr> of
             Inl e \<Rightarrow> Inl e
           | Inr q \<Rightarrow> Inr (ex_users (map_of (pq_variables q) varName)))
      | _ \<Rightarrow> Inl TypeError)"

definition ex_info :: GraphQLResolveInfo where
  "ex_info =
     \<lparr>fieldNodes = [Field None ''author'' [] [Field None ''name'' [] []]],
      info_fragments = [],
      info_operation = \<lparr>operation = ''query'', variableDefinitions = None,
                        selectionSet = [Field None ''post'' [] [Field None ''author'' [] [Field None ''name'' [] []]]]\<rparr>,
      info_variableValues = []\<rparr>"

definition ex_target :: EndpointConfig where
  "ex_target = \<lparr>endpoint_name = ''users'', url = ''http://users'', links = []\<rparr>"

definition ex_link :: LinkConfig where
  "ex_link = \<lparr>endpoint = ''users'', field = ''user'', argument = ''id'', batchMode = False,
              keyField = Some ''id''\<rparr>"

definition ex_basicResolve :: "LinkConfig \<Rightarrow> jsval \<Rightarrow> GraphQLResolveInfo \<Rightarrow> error + jsval" where
  "ex_basicResolve link =
     links_ts_basicResolve ex_resolveAsProxy (\<lambda>e n. n) [] ex_target link (GraphQLScalarType ''ID'')"

definition ex_caller :: ProxyQuery where
  "ex_caller =
     \<lparr>pq_operation =
        \<lparr>operation = ''query'',
         variableDefinitions = Some [VariableDefinition ''param'' (NamedType ''String'')],
         selectionSet = [Field (Some ''id'') ''legacyId'' [] [], Field None ''name'' [] []]\<rparr>,
      pq_fragments = [],
      pq_variables = [(''param'', JStr ''x'')]\<rparr>"

text \<open>
  Input schemas for the merger: \<open>users\<close> with a query and a mutation root, \<open>audit\<close> with
  no root, \<open>posts\<close> with a query root; and a set whose only schema has a mutation root.
\<close>

definition ex_isNativeDirective :: "GraphQLDirective \<Rightarrow> bool" where
  "ex_isNativeDirective d = (d = ''skip'')"

definition ex_schemas :: "NamedSchema list" where
  "ex_schemas =
     [\<lparr>namespace = ''users'',
       schema = \<lparr>queryType = Some (GraphQLObjectType ''UQ'' []),
                 mutationType = Some (GraphQLObjectType ''UM'' []),
                 subscriptionType = None, directives = []\<rparr>,
       queryResolver = Some ''ru'', mutationResolver = None, subscriptionResolver = None\<rparr>,
      \<lparr>namespace = ''audit'',
       schema = \<lparr>queryType = None, mutationType = None,
                 subscriptionType = None, directives = []\<rparr>,
       queryResolver = None, mutationResolver = None, subscriptionResolver = None\<rparr>,
      \<lparr>namespace = ''posts'',
       schema = \<lparr>queryType = Some (GraphQLObjectType ''PQ'' []),
                 mutationType = None,
                 subscriptionType = None, directives = []\<rparr>,
       queryResolver = None, mutationResolver = None, subscriptionResolver = None\<rparr>]"

definition ex_mutation_only :: "NamedSchema list" where
  "ex_mutation_only =
     [\<lparr>namespace = ''audit'',
       schema = \<lparr>queryType = None, mutationType = Some (GraphQLObjectType ''AM'' []),
                 subscriptionType = None, directives = []\<rparr>,
       queryResolver = None, mutationResolver = None, subscriptionResolver = None\<rparr>]"

text \<open>
  Two backends \<open>posts\<close> and \<open>users\<close> with the link \<open>Post.author\<close>, declared with an empty
  argument path, and stand-ins for the functions \<^verbatim>\<open>part_000\<close> imports.
\<close>

definition ex_getTypePrefix :: "EndpointConfig \<Rightarrow> string" where
  "ex_getTypePrefix e = endpoint_name e @ ''_''"



definition ex_empty_link :: LinkConfig where
  "ex_empty_link = \<lparr>endpoint = ''users'', field = ''user'', argument = '''', batchMode = True,
                    keyField = None\<rparr>"

definition ex_endpoints :: "EndpointConfig list" where
  "ex_endpoints =
     [\<lparr>endpoint_name = ''posts'', url = ''http://posts'', links = [(''Post.author'', ex_empty_link)]\<rparr>,
      \<lparr>endpoint_name = ''users'', url = ''http://users'', links = []\<rparr>]"

definition ex_merged :: GraphQLSchema where
  "ex_merged =
     \<lparr>queryType = Some (GraphQLObjectType ''Query''
        [(''posts'', GraphQLObjectType ''posts_Query''
                      [(''post'', GraphQLObjectType ''posts_Post'' [], None)], None),
         (''users'', GraphQLObjectType ''users_Query''
                      [(''user'', GraphQLNonNull (GraphQLObjectType ''users_User'' []), None)], None)]),
      mutationType = None, subscriptionType = None, directives = []\<rparr>"

definition ex_config :: GraphQLNamedFieldConfig where
  "ex_config = \<lparr>config_name = ''author'', config_type = GraphQLScalarType ''ID'',
                config_resolve = None\<rparr>"

definition ex_context :: FieldTransformationContext where
  "ex_context = \<lparr>oldOuterType = GraphQLObjectType ''posts_Post'' [], mapType = id\<rparr>"

definition ex_imports :: Imports where
  "ex_imports =
     \<lparr>getFieldAsQueryParts = (\<lambda>info.
         case fieldNodes info of
           Field alias fname args sel # rest \<Rightarrow>
             \<lparr>qp_fragments = info_fragments info,
              qp_variableDefinitions =
                (case variableDefinitions (info_operation info) of None \<Rightarrow> [] | Some ds \<Rightarrow> ds),
              qp_variableValues = info_variableValues info,
              qp_selectionSet = sel\<rparr>
         | _ \<Rightarrow> \<lparr>qp_fragments = [], qp_variableDefinitions = [], qp_variableValues = [],
                 qp_selectionSet = []\<rparr>),
      addVariableDefinitionSafely = (\<lambda>ds base type.
         (ds @ [createVariableDefinitionNode base type], base)),
      addFieldSelectionSafely = (\<lambda>sel fname frags. (fname, sel @ [Field None fname [] []])),
      arrayToObject = (\<lambda>xs key. map (\<lambda>x. (key x, x)) xs)\<rparr>"

definition ex_endpoint :: Endpoint where
  "ex_endpoint document variableValues = Inr (JObj [(''user'', JArr [])])"

definition ex_state :: LinkState where
  "ex_state = \<lparr>keyFieldAlias = None, dispatched = []\<rparr>"

text \<open>
  A link in batch mode with a nested argument path, a backend that answers any batch with
  the items of the keys \<open>3\<close> and \<open>1\<close>, in that order, and one that answers a single key
  with the object of that key.
\<close>

definition ex_batch_link :: LinkConfig where
  "ex_batch_link = \<lparr>endpoint = ''users'', field = ''user'', argument = ''filter.ids'',
                    batchMode = True, keyField = Some ''id''\<rparr>"

definition ex_partial_endpoint :: Endpoint where
  "ex_partial_endpoint document variableValues =
     Inr (JObj [(''user'', JArr [JObj [(''name'', JStr ''cy''), (''id'', JNum 3)],
                                 JObj [(''name'', JStr ''ann''), (''id'', JNum 1)]])])"

definition ex_echo_endpoint :: Endpoint where
  "ex_echo_endpoint document variableValues =
     Inr (JObj [(''user'', JObj [(''id'', case map_of variableValues ''id'' of
                                           None \<Rightarrow> JNull | Some key \<Rightarrow> key)])])"

section \<open>Properties of the nested argument builder\<close>

lemma js_split_not_Nil: "js_split sep s \<noteq> []"
  by (induction s) (auto split: list.splits)

lemma js_split_no_sep: "sep \<notin> set s \<Longrightarrow> js_split sep s = [s]"
  by (induction s) auto

lemma js_split_append_sep:
  "sep \<notin> set s \<Longrightarrow> js_split sep (s @ sep # r) = s # js_split sep r"
  by (induction s) auto

lemma js_split_dotted:
  "segs \<noteq> [] \<Longrightarrow> \<forall>s \<in> set segs. CHR ''.'' \<notin> set s \<Longrightarrow>
   js_split CHR ''.'' (dotted segs) = segs"
proof (induction segs rule: dotted.induct)
  case 1
  then show ?case by simp
next
  case (2 s)
  then show ?case by (simp add: js_split_no_sep)
next
  case (3 s t ts)
  then show ?case by (simp add: js_split_append_sep)
qed

lemma fold_rev_wrap:
  "fold (\<lambda>part value. ObjectValue [(part, value)]) (rev parts) v =
   foldr (\<lambda>part value. ObjectValue [(part, value)]) parts v"
  by (simp add: foldr_conv_fold)

text \<open>
  C6. For a dotted path \<open>s1.s2.....sn\<close> (\<open>n \<ge> 1\<close>, the segments free of dots, \<open>s1\<close> not
  empty) and a variable name \<open>v\<close>, the builder returns the argument named \<open>s1\<close> whose value
  is the right fold of the remaining segments into one-field object literals around the
  variable reference \<open>$v\<close>; the path \<open>filter.id\<close> gives \<open>filter: {id: $v}\<close>.
\<close>

theorem createNestedArgument_right_fold:
  assumes "s1 \<noteq> []" and "\<forall>s \<in> set (s1 # rest). CHR ''.'' \<notin> set s"
  shows "createNestedArgumentWithVariableNode (dotted (s1 # rest)) v =
           Inr (Argument s1
             (foldr (\<lambda>part value. ObjectValue [(part, value)]) rest (Variable v)))
         \<and> createNestedArgumentWithVariableNode ''filter.id'' v =
           Inr (Argument ''filter'' (ObjectValue [(''id'', Variable v)]))"
proof
  have "js_split CHR ''.'' (dotted (s1 # rest)) = s1 # rest"
    using assms(2) by (intro js_split_dotted) simp_all
  then show "createNestedArgumentWithVariableNode (dotted (s1 # rest)) v =
      Inr (Argument s1 (foldr (\<lambda>part value. ObjectValue [(part, value)]) rest (Variable v)))"
    using assms(1) by (simp add: createNestedArgumentWithVariableNode_def fold_rev_wrap)
next
  show "createNestedArgumentWithVariableNode ''filter.id'' v =
      Inr (Argument ''filter'' (ObjectValue [(''id'', Variable v)]))"
    by (simp add: createNestedArgumentWithVariableNode_def)
qed

theorem createNestedArgument_right_fold_witness:
  "createNestedArgumentWithVariableNode ''a.b.c'' ''v'' =
     Inr (Argument ''a'' (ObjectValue [(''b'', ObjectValue [(''c'', Variable ''v'')])]))"
  using createNestedArgument_right_fold [of "''a''" "[''b'', ''c'']" "''v''"]
  by simp

section \<open>Properties of abstract type resolution\<close>

lemma discriminator_get:
  "discriminator obj = Some tn \<Longrightarrow> get_prop obj ''__typename'' = Inr tn \<and> js_in ''__typename'' obj = Inr True"
  by (cases obj) (auto simp: js_in_def discriminator_def get_prop_def dest: map_of_SomeD intro: rev_image_eqI)

lemma discriminator_None:
  "discriminator obj = None \<Longrightarrow> isl (resolveType n c obj)"
  by (cases obj) (auto simp: js_in_def discriminator_def resolveType_def map_of_eq_None_iff split: sum.splits bool.splits)

lemma resolveType_Some:
  "discriminator obj = Some tn \<Longrightarrow> resolveType n c obj =
     (case findType c tn of None \<Rightarrow> Inl (NoTypeWithThatName n)
       | Some t \<Rightarrow> if instanceof_GraphQLObjectType t then Inr t else Inl (NotAGraphQLObjectType n))"
  by (auto simp: resolveType_def dest!: discriminator_get split: option.splits)

text \<open>
  C5. The function installed as \<^verbatim>\<open>resolveType\<close> on an interface or union type fails on a
  resolved value exactly when the value has no \<^verbatim>\<open>__typename\<close>, or \<^verbatim>\<open>context.findType\<close>
  finds no type for it, or the type found is not an object type; otherwise it returns the
  type found. On an object type the \<^verbatim>\<open>isTypeOf\<close> check is removed.
\<close>

theorem resolveType_fails_iff:
  "config_resolveType (transformInterfaceType config context) = Some (resolveType (abstract_name config) context)
   \<and> config_resolveType (transformUnionType config context) = Some (resolveType (abstract_name config) context)
   \<and> (isl (resolveType (abstract_name config) context obj) \<longleftrightarrow>
        (discriminator obj = None
         \<or> (\<exists>tn. discriminator obj = Some tn \<and> findType context tn = None)
         \<or> (\<exists>tn t. discriminator obj = Some tn \<and> findType context tn = Some t \<and> \<not> instanceof_GraphQLObjectType t)))
   \<and> (\<forall>tn t. discriminator obj = Some tn \<and> findType context tn = Some t \<and> instanceof_GraphQLObjectType t
        \<longrightarrow> resolveType (abstract_name config) context obj = Inr t)
   \<and> isTypeOf (transformObjectType oconfig) = None"
proof (intro conjI)
  show "isl (resolveType (abstract_name config) context obj) \<longleftrightarrow>
        (discriminator obj = None
         \<or> (\<exists>tn. discriminator obj = Some tn \<and> findType context tn = None)
         \<or> (\<exists>tn t. discriminator obj = Some tn \<and> findType context tn = Some t \<and> \<not> instanceof_GraphQLObjectType t))"
  proof (cases "discriminator obj")
    case None
    then show ?thesis by (simp add: discriminator_None)
  next
    case (Some tn)
    then show ?thesis by (auto simp: resolveType_Some split: option.splits)
  qed
qed (auto simp: transformInterfaceType_def transformUnionType_def transformAbstractType_def transformObjectType_def resolveType_Some)


theorem resolveType_fails_iff_witness:
  "resolveType ''Node''
     \<lparr>findType = (\<lambda>n. if n = JStr ''User'' then Some (GraphQLObjectType ''User'' [])
                      else if n = JStr ''Node'' then Some (GraphQLInterfaceType ''Node'')
                      else None)\<rparr>
     (JObj [(''__typename'', JStr ''User''), (''id'', JNum 1)])
   = Inr (GraphQLObjectType ''User'' [])
   \<and> isl (resolveType ''Node''
     \<lparr>findType = (\<lambda>n. if n = JStr ''User'' then Some (GraphQLObjectType ''User'' [])
                      else if n = JStr ''Node'' then Some (GraphQLInterfaceType ''Node'')
                      else None)\<rparr>
     (JObj [(''__typename'', JStr ''Node'')]))"
  using resolveType_fails_iff
    [of "\<lparr>abstract_name = ''Node'', config_resolveType = None\<rparr>"
        "\<lparr>findType = (\<lambda>n. if n = JStr ''User'' then Some (GraphQLObjectType ''User'' [])
                      else if n = JStr ''Node'' then Some (GraphQLInterfaceType ''Node'')
                      else None)\<rparr>"
        "JObj [(''__typename'', JStr ''User''), (''id'', JNum 1)]"]
    resolveType_fails_iff
    [of "\<lparr>abstract_name = ''Node'', config_resolveType = None\<rparr>"
        "\<lparr>findType = (\<lambda>n. if n = JStr ''User'' then Some (GraphQLObjectType ''User'' [])
                      else if n = JStr ''Node'' then Some (GraphQLInterfaceType ''Node'')
                      else None)\<rparr>"
        "JObj [(''__typename'', JStr ''Node'')]"]
  by (simp add: discriminator_def)

section \<open>Properties of the schema merger\<close>

lemma update_fresh: "k \<notin> fst ` set al \<Longrightarrow> AList.update k v al = al @ [(k, v)]"
  by (induction al) auto

lemma fold_fields_distinct:
  "distinct (map fc_namespace types) \<Longrightarrow> fst ` set acc \<inter> fc_namespace ` set types = {} \<Longrightarrow>
   fold (\<lambda>fc fields.
                case fc_type fc of
                  None \<Rightarrow> fields
                | Some type \<Rightarrow> AList.update (fc_namespace fc) (type, fc_resolver fc) fields) types acc =
   acc @ List.map_filter (\<lambda>fc. map_option (\<lambda>t. (fc_namespace fc, t, fc_resolver fc)) (fc_type fc)) types"
proof (induction types arbitrary: acc)
  case Nil
  then show ?case by simp
next
  case (Cons fc types)
  show ?case
  proof (cases "fc_type fc")
    case None
    with Cons show ?thesis by simp
  next
    case (Some t)
    have fresh: "fc_namespace fc \<notin> fst ` set acc" using Cons.prems(2) by auto
    have "fst ` set (acc @ [(fc_namespace fc, t, fc_resolver fc)]) \<inter> fc_namespace ` set types = {}"
      using Cons.prems by auto
    with Cons.IH[of "acc @ [(fc_namespace fc, t, fc_resolver fc)]"] Cons.prems(1) Some fresh
    show ?thesis by (simp add: update_fresh)
  qed
qed

lemma createRootFieldMaybe_distinct:
  assumes "distinct (map fc_namespace types)"
  shows "createRootFieldMaybe n types =
    (let fs = List.map_filter (\<lambda>fc. map_option (\<lambda>t. (fc_namespace fc, t, fc_resolver fc)) (fc_type fc)) types
     in if fs = [] then None else Some (GraphQLObjectType n fs))"
  using fold_fields_distinct[OF assms, of "[]"]
  by (simp add: createRootFieldMaybe_def Let_def)

lemma map_filter_map: "List.map_filter f (map g xs) = List.map_filter (f \<circ> g) xs"
  by (induction xs) (auto split: option.splits)

lemma map_filter_Nil_iff: "List.map_filter f xs = [] \<longleftrightarrow> (\<forall>x \<in> set xs. f x = None)"
  by (induction xs) (auto split: option.splits)

lemma root_of_schemas:
  assumes "distinct (map namespace schemas)"
  shows "createRootFieldMaybe n (map (\<lambda>s. \<lparr>fc_namespace = namespace s, fc_type = root s, fc_resolver = resolver s\<rparr>) schemas)
    = (if contributed root resolver schemas = [] then None else Some (GraphQLObjectType n (contributed root resolver schemas)))"
proof -
  have d: "distinct (map fc_namespace (map (\<lambda>s. \<lparr>fc_namespace = namespace s, fc_type = root s, fc_resolver = resolver s\<rparr>) schemas))"
    using assms by (simp add: comp_def)
  show ?thesis
    unfolding createRootFieldMaybe_distinct[OF d]
    by (simp add: Let_def map_filter_map comp_def contributed_def)
qed

lemma contributed_Nil_iff: "contributed root resolver schemas = [] \<longleftrightarrow> (\<forall>s \<in> set schemas. root s = None)"
  by (simp add: contributed_def map_filter_Nil_iff)

lemma contributed_names: "map fst (contributed root resolver schemas) = map namespace (filter (\<lambda>s. root s \<noteq> None) schemas)"
  by (induction schemas) (auto simp: contributed_def split: option.splits)

lemma fold_fields_not_Nil:
  "acc \<noteq> [] \<Longrightarrow>
   fold (\<lambda>fc fields.
           case fc_type fc of
             None \<Rightarrow> fields
           | Some type \<Rightarrow> AList.update (fc_namespace fc) (type, fc_resolver fc) fields) types acc \<noteq> []"
  by (induction types arbitrary: acc) (auto split: option.splits)

lemma createRootFieldMaybe_None_iff:
  "createRootFieldMaybe n types = None \<longleftrightarrow> (\<forall>fc \<in> set types. fc_type fc = None)"
proof -
  have "fold (\<lambda>fc fields.
           case fc_type fc of
             None \<Rightarrow> fields
           | Some type \<Rightarrow> AList.update (fc_namespace fc) (type, fc_resolver fc) fields) types acc = []
        \<longleftrightarrow> acc = [] \<and> (\<forall>fc \<in> set types. fc_type fc = None)" for acc
  proof (induction types arbitrary: acc)
    case Nil
    then show ?case by simp
  next
    case (Cons fc types)
    then show ?case by (auto split: option.splits)
  qed
  then show ?thesis by (simp add: createRootFieldMaybe_def Let_def)
qed

text \<open>Without a query root among the input schemas, \<^verbatim>\<open>mergeSchemas\<close> throws.\<close>

lemma mergeSchemas_without_query_root:
  assumes "\<forall>s \<in> set schemas. queryType (schema s) = None"
  shows "mergeSchemas isNative specified schemas = Inl SchemaQueryMustBeObjectType"
proof -
  have "createRootFieldMaybe ''Query''
            (map (\<lambda>s. \<lparr>fc_namespace = namespace s, fc_type = queryType (schema s),
                        fc_resolver = queryResolver s\<rparr>) schemas) = None"
    using assms by (simp add: createRootFieldMaybe_None_iff)
  then show ?thesis by (simp add: mergeSchemas_def new_GraphQLSchema_def Let_def)
qed

text \<open>
  C8, as the source has it. When the namespaces of the input schemas are pairwise distinct
  and at least one input schema has a query root, \<^verbatim>\<open>mergeSchemas\<close> yields a schema whose
  \<open>Query\<close> type has exactly one field per input schema that has a query root, named by
  that schema's namespace (and carrying its root type and resolver), in the order of the
  input; the \<open>Mutation\<close> (\<open>Subscription\<close>) root is absent exactly when no input schema has a
  mutation (subscription) root.
\<close>

theorem mergeSchemas_roots:
  assumes "distinct (map namespace schemas)"
    and "\<exists>s \<in> set schemas. queryType (schema s) \<noteq> None"
  shows "\<exists>merged. mergeSchemas isNative specified schemas = Inr merged
       \<and> queryType merged =
           Some (GraphQLObjectType ''Query'' (contributed (queryType \<circ> schema) queryResolver schemas))
       \<and> map fst (contributed (queryType \<circ> schema) queryResolver schemas) =
           map namespace (filter (\<lambda>s. queryType (schema s) \<noteq> None) schemas)
       \<and> (mutationType merged = None \<longleftrightarrow> (\<forall>s \<in> set schemas. mutationType (schema s) = None))
       \<and> (subscriptionType merged = None \<longleftrightarrow>
            (\<forall>s \<in> set schemas. subscriptionType (schema s) = None))"
proof -
  have q: "createRootFieldMaybe ''Query''
            (map (\<lambda>s. \<lparr>fc_namespace = namespace s, fc_type = queryType (schema s),
                        fc_resolver = queryResolver s\<rparr>) schemas)
        = Some (GraphQLObjectType ''Query'' (contributed (queryType \<circ> schema) queryResolver schemas))"
    using root_of_schemas[OF assms(1), of "''Query''" "queryType \<circ> schema" queryResolver] assms(2)
    by (simp add: contributed_Nil_iff)
  have m: "createRootFieldMaybe ''Mutation''
            (map (\<lambda>s. \<lparr>fc_namespace = namespace s, fc_type = mutationType (schema s),
                        fc_resolver = mutationResolver s\<rparr>) schemas) = None
        \<longleftrightarrow> (\<forall>s \<in> set schemas. mutationType (schema s) = None)"
    by (simp add: createRootFieldMaybe_None_iff)
  have u: "createRootFieldMaybe ''Subscription''
            (map (\<lambda>s. \<lparr>fc_namespace = namespace s, fc_type = subscriptionType (schema s),
                        fc_resolver = subscriptionResolver s\<rparr>) schemas) = None
        \<longleftrightarrow> (\<forall>s \<in> set schemas. subscriptionType (schema s) = None)"
    by (simp add: createRootFieldMaybe_None_iff)
  show ?thesis
    using q m u
    by (simp add: mergeSchemas_def new_GraphQLSchema_def Let_def contributed_names)
qed

theorem mergeSchemas_roots_witness:
  "\<exists>merged. mergeSchemas ex_isNativeDirective [''skip''] ex_schemas = Inr merged
     \<and> queryType merged = Some (GraphQLObjectType ''Query''
         [(''users'', GraphQLObjectType ''UQ'' [], Some ''ru''),
          (''posts'', GraphQLObjectType ''PQ'' [], None)])
     \<and> mutationType merged \<noteq> None
     \<and> subscriptionType merged = None"
proof -
  have d: "distinct (map namespace ex_schemas)"
    by (simp add: ex_schemas_def)
  have c: "\<exists>s \<in> set ex_schemas. queryType (schema s) \<noteq> None"
    by (simp add: ex_schemas_def)
  have f: "contributed (queryType \<circ> schema) queryResolver ex_schemas =
         [(''users'', GraphQLObjectType ''UQ'' [], Some ''ru''),
          (''posts'', GraphQLObjectType ''PQ'' [], None)]"
    by (simp add: contributed_def ex_schemas_def)
  from mergeSchemas_roots[OF d c, of ex_isNativeDirective "[''skip'']"]
  obtain merged where "mergeSchemas ex_isNativeDirective [''skip''] ex_schemas = Inr merged"
    and "queryType merged =
           Some (GraphQLObjectType ''Query'' (contributed (queryType \<circ> schema) queryResolver ex_schemas))"
    and "mutationType merged = None \<longleftrightarrow> (\<forall>s \<in> set ex_schemas. mutationType (schema s) = None)"
    and "subscriptionType merged = None \<longleftrightarrow>
            (\<forall>s \<in> set ex_schemas. subscriptionType (schema s) = None)"
    by (elim exE conjE)
  then show ?thesis
    unfolding f by (intro exI[of _ merged]) (simp add: ex_schemas_def)
qed

text \<open>
  Two backend sets with pairwise distinct namespaces, the empty one and one whose only
  schema has a mutation root and no query root: \<^verbatim>\<open>mergeSchemas\<close> yields no schema.
\<close>

theorem mergeSchemas_throws_without_query_root:
  "distinct (map namespace ex_mutation_only)
   \<and> mergeSchemas ex_isNativeDirective [''skip''] ex_mutation_only = Inl SchemaQueryMustBeObjectType
   \<and> mergeSchemas ex_isNativeDirective [''skip''] [] = Inl SchemaQueryMustBeObjectType"
  by (simp add: ex_mutation_only_def mergeSchemas_def new_GraphQLSchema_def
      createRootFieldMaybe_def)

section \<open>Properties of the namespace router\<close>






section \<open>Properties of the installed resolver\<close>

lemma falsy_iff: "\<not> truthy v \<longleftrightarrow> v \<in> {JUndefined, JNull, JBool False, JNum 0, JStr []}"
  by (cases v) auto

lemma resolve_link_value_None:
  "link_value source info = None \<Longrightarrow> snd (resolve dataLoaders source context info) = dataLoaders"
  by (auto simp: link_value_def resolve_def split: list.splits SelectionNode.splits sum.splits)

lemma resolve_link_value_Some:
  "link_value source info = Some v \<Longrightarrow>
   resolve dataLoaders source context info =
     (if \<not> truthy v then (Inr (Returned v), dataLoaders)
      else (let dataLoader = (case dataLoaders context of
                                         None \<Rightarrow> \<lparr>batch_info = info, queue = []\<rparr>
                                       | Some dl \<Rightarrow> dl)
            in (Inr (Future (length (queue dataLoader))),
                dataLoaders(context \<mapsto> dataLoader\<lparr>queue := queue dataLoader @ [v]\<rparr>))))"
  by (auto simp: link_value_def resolve_def load_def Let_def split: list.splits SelectionNode.splits sum.splits)

text \<open>
  C4. When the link value read off the parent object under the response alias of the field
  is falsy (\<open>undefined\<close>, \<open>null\<close>, \<open>false\<close>, \<open>0\<close> or the empty string), the resolver returns
  that value and leaves the loader table as it was: no loader is created, no key is
  queued, so no backend call follows.
\<close>

theorem resolve_falsy_short_circuit:
  assumes "link_value source info = Some v" and "v \<in> {JUndefined, JNull, JBool False, JNum 0, JStr []}"
  shows "resolve dataLoaders source context info = (Inr (Returned v), dataLoaders)"
  using assms(2) resolve_link_value_Some[OF assms(1), of dataLoaders "context"]
  by (auto simp: falsy_iff)

theorem resolve_falsy_short_circuit_witness:
  "resolve (\<lambda>c. None) (JObj [(''title'', JStr ''t''), (''writer'', JNum 0)]) (1::nat)
     \<lparr>fieldNodes = [Field (Some ''writer'') ''author'' [] [Field None ''name'' [] []]],
      info_fragments = [],
      info_operation = \<lparr>operation = ''query'', variableDefinitions = None, selectionSet = []\<rparr>,
      info_variableValues = []\<rparr>
   = (Inr (Returned (JNum 0)), (\<lambda>c. None))"
  using resolve_falsy_short_circuit
    [of "JObj [(''title'', JStr ''t''), (''writer'', JNum 0)]"
        "\<lparr>fieldNodes = [Field (Some ''writer'') ''author'' [] [Field None ''name'' [] []]],
          info_fragments = [],
          info_operation = \<lparr>operation = ''query'', variableDefinitions = None, selectionSet = []\<rparr>,
          info_variableValues = []\<rparr>"
        "JNum 0" "\<lambda>c. None" "1::nat"]
  by (simp add: link_value_def get_prop_def)

lemma loading_Cons:
  "loading ((source, info) # calls) =
     (case link_value source info of None \<Rightarrow> loading calls
      | Some v \<Rightarrow> if truthy v then (v, info) # loading calls else loading calls)"
  by (simp add: loading_def split: option.splits)

lemma loading_Nil: "loading [] = []"
  by (simp add: loading_def)

lemma resolve_all_loader:
  "resolve_all dataLoaders context calls context =
     (if loading calls = [] then dataLoaders context
      else Some \<lparr>batch_info = (case dataLoaders context of
                                 None \<Rightarrow> snd (hd (loading calls))
                               | Some dl \<Rightarrow> batch_info dl),
                 queue = (case dataLoaders context of None \<Rightarrow> [] | Some dl \<Rightarrow> queue dl)
                         @ map fst (loading calls)\<rparr>)"
proof (induction calls arbitrary: dataLoaders)
  case Nil
  then show ?case by (simp add: loading_Nil)
next
  case (Cons call calls)
  obtain source info where call: "call = (source, info)" by (cases call)
  show ?case
  proof (cases "link_value source info")
    case None
    then show ?thesis using Cons.IH[of dataLoaders]
      unfolding call by (simp add: loading_Cons resolve_link_value_None split: option.splits)
  next
    case (Some v)
    show ?thesis
    proof (cases "truthy v")
      case False
      then show ?thesis using Cons.IH[of dataLoaders] Some
        unfolding call by (simp add: loading_Cons resolve_link_value_Some split: option.splits)
    next
      case True
      then show ?thesis using Some
        unfolding call
        by (cases "dataLoaders context")
           (simp_all add: loading_Cons resolve_link_value_Some Cons.IH Let_def)
    qed
  qed
qed

section \<open>Properties of batch dispatch in \<^verbatim>\<open>part_000\<close>\<close>

lemma entries_by_ok:
  "\<forall>item \<in> set items. item \<noteq> JNull \<and> item \<noteq> JUndefined \<Longrightarrow>
   \<exists>entries. entries_by k items = Inr entries \<and> map snd entries = items
      \<and> (\<forall>entry \<in> set entries. get_prop (snd entry) k = Inr (fst entry))"
proof (induction items)
  case Nil
  then show ?case by simp
next
  case (Cons item items)
  then obtain entries where e: "entries_by k items = Inr entries" "map snd entries = items"
      "\<forall>entry \<in> set entries. get_prop (snd entry) k = Inr (fst entry)" by auto
  from Cons.prems obtain v where v: "get_prop item k = Inr v"
    by (cases item) (auto simp: get_prop_def)
  show ?case using e v by simp
qed

lemma find_rev_filter:
  "find P (rev xs) = (case filter P xs of [] \<Rightarrow> None | found \<Rightarrow> Some (last found))"
proof (induction xs rule: rev_induct)
  case Nil
  then show ?case by simp
next
  case (snoc x xs)
  then show ?case by (auto split: list.splits)
qed

lemma map_get_item_for:
  assumes "\<forall>entry \<in> set entries. get_prop (snd entry) k = Inr (fst entry)"
  shows "map_get entries key = item_for k (map snd entries) key"
proof -
  have f: "filter (\<lambda>item. case get_prop item k of Inl e \<Rightarrow> False | Inr v \<Rightarrow> same_value_zero v key) (map snd entries)
        = map snd (filter (\<lambda>entry. same_value_zero (fst entry) key) entries)"
    using assms by (induction entries) auto
  show ?thesis
    unfolding map_get_def item_for_def find_rev_filter f
    by (cases "filter (\<lambda>entry. same_value_zero (fst entry) key) entries") (simp_all add: last_map)
qed

lemma remap_items:
  assumes "\<forall>item \<in> set items. item \<noteq> JNull \<and> item \<noteq> JUndefined"
  shows "remap k (JArr items) keys = Inr (JArr (map (item_for k items) keys))"
proof -
  from entries_by_ok[OF assms, of k] obtain entries where
    e: "entries_by k items = Inr entries" "map snd entries = items"
      "\<forall>entry \<in> set entries. get_prop (snd entry) k = Inr (fst entry)" by auto
  show ?thesis using e map_get_item_for[OF e(3)] by (simp add: remap_def)
qed

lemma basicResolve_alias:
  assumes "batchMode link" and "keyField_set link = Some kf"
    and "part_000_basicResolve imports te link ot value info st = (r, st1)"
  shows "keyFieldAlias st1 = Some (fst (addFieldSelectionSafely imports
            (qp_selectionSet (getFieldAsQueryParts imports info)) kf
            (arrayToObject imports (qp_fragments (getFieldAsQueryParts imports info)) fragment_name)))"
  using assms
  by (auto simp: part_000_basicResolve_def Let_def split: prod.splits sum.splits)

text \<open>
  With batch mode and a key field, when the one backend call answers with a list of items,
  none of them \<open>null\<close>, and no other batch of the link has changed \<^verbatim>\<open>keyFieldAlias\<close> during
  the wait, the batch is one entry per requested key, in request order: the result item
  whose value under the alias chosen for the key field equals the key, and \<open>undefined\<close>
  for a key that no item matches. The order and number of the items play no part.
\<close>

lemma part_000_resolveBatch_remaps:
  assumes "batchMode link" and "keyField_set link = Some kf"
    and "part_000_basicResolve imports te link ot (JArr keys) info st = (Inr (JArr items), st1)"
    and "\<forall>item \<in> set items. item \<noteq> JNull \<and> item \<noteq> JUndefined"
    and "keyFieldAlias (meanwhile st1) = keyFieldAlias st1"
  shows "part_000_resolveBatch imports te link ot meanwhile keys info st =
           (Inr (JArr (map (item_for
              (fst (addFieldSelectionSafely imports
                (qp_selectionSet (getFieldAsQueryParts imports info)) kf
                (arrayToObject imports (qp_fragments (getFieldAsQueryParts imports info)) fragment_name)))
              items) keys)), meanwhile st1)"
  using assms(1,2,3,5) basicResolve_alias[OF assms(1,2,3)] remap_items[OF assms(4)]
  by (simp add: part_000_resolveBatch_def)

text \<open>
  With batch mode and no key field the answer of the one call is returned as it is; without
  batch mode the promises of the calls are returned as they are, whatever the key field.
\<close>

lemma part_000_resolveBatch_without_keyField:
  assumes "batchMode link" and "keyField_set link = None"
  shows "part_000_resolveBatch imports te link ot meanwhile keys info st =
           (fst (part_000_basicResolve imports te link ot (JArr keys) info st),
            meanwhile (snd (part_000_basicResolve imports te link ot (JArr keys) info st)))"
  using assms
  by (cases "part_000_basicResolve imports te link ot (JArr keys) info st")
     (auto simp: part_000_resolveBatch_def Let_def split: sum.splits)

lemma part_000_resolveBatch_without_batchMode:
  assumes "\<not> batchMode link"
  shows "part_000_resolveBatch imports te link ot meanwhile keys info st =
           (Inr (JArr (fst (keys_map (\<lambda>key. part_000_basicResolve imports te link ot key info) keys st))),
            meanwhile (snd (keys_map (\<lambda>key. part_000_basicResolve imports te link ot key info) keys st)))"
  using assms by (simp add: part_000_resolveBatch_def split: prod.splits)

text \<open>
  Without batch mode, for a link whose argument path the builder accepts, every key causes
  exactly one dispatch, the dispatches are made in key order, each binds the variable to
  its key, and the list returned holds the promise of each call at the position of its key.
\<close>

lemma keys_map_log:
  assumes "\<And>key st. f key st = (r key, st\<lparr>dispatched := dispatched st @ [q key]\<rparr>)"
  shows "keys_map f keys st =
           (map (\<lambda>key. JPromise (r key)) keys, st\<lparr>dispatched := dispatched st @ map q keys\<rparr>)"
proof (induction keys arbitrary: st)
  case Nil
  then show ?case by simp
next
  case (Cons key keys)
  show ?case by (simp add: assms[of key st] Cons.IH)
qed

lemma part_000_basicResolve_without_batchMode:
  assumes "\<not> batchMode link"
    and "addVariableDefinitionSafely imports
           (qp_variableDefinitions (getFieldAsQueryParts imports info))
           (last (js_split CHR ''.'' (argument link))) ot = (defs, var)"
    and "createNestedArgumentWithVariableNode (argument link) var = Inr arg"
  shows "part_000_basicResolve imports te link ot value info st =
     (let parts = getFieldAsQueryParts imports info;
          document = Document (map FragmentDef (qp_fragments parts)
                     @ [OperationDef
                          \<lparr>operation = ''query'',
                           variableDefinitions = Some defs,
                           selectionSet = [Field None (field link) [arg] (qp_selectionSet parts)]\<rparr>]);
          variableValues = AList.update var value (qp_variableValues parts)
      in (case te document variableValues of
                   Inl e \<Rightarrow> Inl e
                 | Inr obj \<Rightarrow> get_prop obj (field link),
          st\<lparr>dispatched := dispatched st @ [(document, variableValues)]\<rparr>))"
  using assms
  by (auto simp: part_000_basicResolve_def Let_def split: option.splits sum.splits)

lemma part_000_resolveBatch_one_dispatch_per_key:
  assumes "\<not> batchMode link"
    and "addVariableDefinitionSafely imports
           (qp_variableDefinitions (getFieldAsQueryParts imports info))
           (last (js_split CHR ''.'' (argument link))) ot = (defs, var)"
    and "createNestedArgumentWithVariableNode (argument link) var = Inr arg"
  shows "\<exists>document.
     part_000_resolveBatch imports te link ot meanwhile keys info st =
       (Inr (JArr (map (\<lambda>key. JPromise (fst (part_000_basicResolve imports te link ot key info st))) keys)),
        meanwhile (st\<lparr>dispatched := dispatched st
             @ map (\<lambda>key. (document, AList.update var key
                       (qp_variableValues (getFieldAsQueryParts imports info)))) keys\<rparr>))
     \<and> (\<forall>key st'. dispatched (snd (part_000_basicResolve imports te link ot key info st')) =
           dispatched st' @ [(document, AList.update var key
                       (qp_variableValues (getFieldAsQueryParts imports info)))])"
proof -
  let ?parts = "getFieldAsQueryParts imports info"
  let ?doc = "Document (map FragmentDef (qp_fragments ?parts)
                     @ [OperationDef
                          \<lparr>operation = ''query'',
                           variableDefinitions = Some defs,
                           selectionSet = [Field None (field link) [arg] (qp_selectionSet ?parts)]\<rparr>])"
  let ?q = "\<lambda>key. (?doc, AList.update var key (qp_variableValues ?parts))"
  let ?r = "\<lambda>key. (case te ?doc (AList.update var key (qp_variableValues ?parts)) of
                   Inl e \<Rightarrow> Inl e
                 | Inr obj \<Rightarrow> get_prop obj (field link))"
  have step: "\<And>key st. part_000_basicResolve imports te link ot key info st =
       (?r key, st\<lparr>dispatched := dispatched st @ [?q key]\<rparr>)"
    by (simp add: part_000_basicResolve_without_batchMode[OF assms] Let_def)
  have "keys_map (\<lambda>key. part_000_basicResolve imports te link ot key info) keys st =
      (map (\<lambda>key. JPromise (?r key)) keys, st\<lparr>dispatched := dispatched st @ map ?q keys\<rparr>)"
    by (rule keys_map_log) (rule step)
  then have "part_000_resolveBatch imports te link ot meanwhile keys info st =
       (Inr (JArr (map (\<lambda>key. JPromise (?r key)) keys)),
        meanwhile (st\<lparr>dispatched := dispatched st @ map ?q keys\<rparr>))"
    using assms(1) by (simp add: part_000_resolveBatch_def)
  then show ?thesis
    by (intro exI[of _ ?doc]) (simp add: step)
qed

text \<open>
  The two cases on the examples, with no other batch running in the meantime: a batch of
  three keys answered with two items out of order comes back in request order with
  \<open>undefined\<close> for the missing key, after one dispatch; two keys without batch mode make
  two dispatches, in key order.
\<close>

lemma part_000_resolveBatch_partial_example:
  "part_000_resolveBatch ex_imports ex_partial_endpoint ex_batch_link (GraphQLScalarType ''ID'') id
     [JNum 1, JNum 2, JNum 3] ex_info ex_state =
   (Inr (JArr [JObj [(''name'', JStr ''ann''), (''id'', JNum 1)], JUndefined,
               JObj [(''name'', JStr ''cy''), (''id'', JNum 3)]]),
    \<lparr>keyFieldAlias = Some ''id'',
     dispatched =
       [(Document
          [OperationDef
            \<lparr>operation = ''query'',
             variableDefinitions = Some
               [VariableDefinition ''ids'' (NonNullType (ListType (NonNullType (NamedType ''ID''))))],
             selectionSet =
               [Field None ''user'' [Argument ''filter'' (ObjectValue [(''ids'', Variable ''ids'')])]
                  [Field None ''name'' [] [], Field None ''id'' [] []]]\<rparr>],
         [(''ids'', JArr [JNum 1, JNum 2, JNum 3])])]\<rparr>)"
  by (simp add: part_000_resolveBatch_def part_000_basicResolve_def ex_imports_def
      ex_batch_link_def ex_info_def ex_state_def ex_partial_endpoint_def keyField_set_def
      createNestedArgumentWithVariableNode_def createVariableDefinitionNode_def
      get_prop_def remap_def map_get_def same_value_zero_def Let_def)

lemma part_000_resolveBatch_single_example:
  "part_000_resolveBatch ex_imports ex_echo_endpoint ex_link (GraphQLScalarType ''ID'') id
     [JNum 1, JNum 2] ex_info ex_state =
   (Inr (JArr [JPromise (Inr (JObj [(''id'', JNum 1)])), JPromise (Inr (JObj [(''id'', JNum 2)]))]),
    \<lparr>keyFieldAlias = None,
     dispatched =
       [(Document
          [OperationDef
            \<lparr>operation = ''query'',
             variableDefinitions = Some [VariableDefinition ''id'' (NamedType ''ID'')],
             selectionSet =
               [Field None ''user'' [Argument ''id'' (Variable ''id'')] [Field None ''name'' [] []]]\<rparr>],
         [(''id'', JNum 1)]),
        (Document
          [OperationDef
            \<lparr>operation = ''query'',
             variableDefinitions = Some [VariableDefinition ''id'' (NamedType ''ID'')],
             selectionSet =
               [Field None ''user'' [Argument ''id'' (Variable ''id'')] [Field None ''name'' [] []]]\<rparr>],
         [(''id'', JNum 2)])]\<rparr>)"
  by (simp add: part_000_resolveBatch_def part_000_basicResolve_def ex_imports_def
      ex_link_def ex_info_def ex_state_def ex_echo_endpoint_def keyField_set_def
      createNestedArgumentWithVariableNode_def createVariableDefinitionNode_def
      get_prop_def Let_def)

section \<open>Batch dispatch in \<^verbatim>\<open>links.ts\<close> without batch mode\<close>

lemma entries_by_promises:
  "entries_by k (map (\<lambda>key. JPromise (f key)) keys) =
     Inr (map (\<lambda>key. (JUndefined, JPromise (f key))) keys)"
  by (induction keys) (auto simp: get_prop_def)

lemma map_get_no_entry:
  assumes "\<forall>entry \<in> set entries. \<not> same_value_zero (fst entry) key"
  shows "map_get entries key = JUndefined"
proof -
  have "find (\<lambda>entry. same_value_zero (fst entry) key) (rev entries) = None"
    using assms by (auto simp: find_None_iff)
  then show ?thesis by (simp add: map_get_def)
qed

text \<open>
  In \<^verbatim>\<open>links.ts\<close> a link with a key field and no batch mode resolves every key to
  \<open>undefined\<close>, whatever the backend answers: the remapping runs over the promises.
\<close>

lemma links_ts_resolveBatch_without_batchMode:
  assumes "\<not> batchMode link" and "keyField_set link = Some kf"
    and "\<forall>key \<in> set keys. key \<noteq> JUndefined"
  shows "links_ts_resolveBatch basicResolve link keys info =
           Inr (JArr (map (\<lambda>key. JUndefined) keys))"
proof -
  have "map (map_get (map (\<lambda>key. (JUndefined, JPromise (basicResolve key info))) keys)) keys
        = map (\<lambda>key. JUndefined) keys"
    using assms(3) by (intro map_cong refl map_get_no_entry) (auto simp: same_value_zero_def)
  then show ?thesis using assms(1,2)
    by (simp add: links_ts_resolveBatch_def remap_def entries_by_promises)
qed

text \<open>
  C1, at a failing input of \<^verbatim>\<open>links.ts\<close>. The link has a key field and no batch mode. The
  backend answers the key \<open>7\<close> with its object, and \<^verbatim>\<open>resolveBatch\<close> does not return the
  promise of that answer as it is: it remaps the array of promises by the key field,
  which no promise has, and returns \<open>undefined\<close>.
\<close>

theorem links_ts_resolveBatch_remaps_without_batchMode:
  "links_ts_resolveBatch (ex_basicResolve ex_link) ex_link [JNum 7] ex_info = Inr (JArr [JUndefined])
   \<and> map (\<lambda>key. JPromise (ex_basicResolve ex_link key ex_info)) [JNum 7] =
       [JPromise (Inr (JObj [(''id'', JNum 7), (''name'', JStr ''ann'')]))]"
  by (simp add: links_ts_resolveBatch_def ex_basicResolve_def links_ts_basicResolve_def ex_link_def
      ex_info_def ex_resolveAsProxy_def links_ts_transform_def createNestedArgumentWithVariableNode_def
      varName_def ex_users_def get_prop_def keyField_set_def remap_def map_get_def same_value_zero_def
      createVariableDefinitionNode_def ex_target_def)

text \<open>
  C3, at a failing input of \<^verbatim>\<open>links.ts\<close>. Without batch mode and with a key field, two
  keys are resolved by two calls whose promises fulfil with the two objects, and the list
  \<^verbatim>\<open>resolveBatch\<close> returns holds none of them.
\<close>

theorem links_ts_resolveBatch_drops_resolved_values:
  "links_ts_resolveBatch (ex_basicResolve ex_link) ex_link [JNum 1, JNum 2] ex_info =
     Inr (JArr [JUndefined, JUndefined])
   \<and> map (\<lambda>key. ex_basicResolve ex_link key ex_info) [JNum 1, JNum 2] =
       [Inr (JObj [(''id'', JNum 1), (''name'', JStr ''ann'')]),
        Inr (JObj [(''id'', JNum 2), (''name'', JStr ''ann'')])]"
  by (simp add: links_ts_resolveBatch_def ex_basicResolve_def links_ts_basicResolve_def ex_link_def
      ex_info_def ex_resolveAsProxy_def links_ts_transform_def createNestedArgumentWithVariableNode_def
      varName_def ex_users_def get_prop_def keyField_set_def remap_def map_get_def same_value_zero_def
      createVariableDefinitionNode_def ex_target_def)

section \<open>The query rewrite of \<^verbatim>\<open>links.ts\<close>\<close>

text \<open>
  C2, at a failing input of \<^verbatim>\<open>links.ts\<close>. The caller declares a variable \<open>param\<close> and
  selects \<open>legacyId\<close> under the alias \<open>id\<close>; the link has the key field \<open>id\<close>. The rewrite
  declares \<open>param\<close> a second time, replaces the caller's value of it, and adds a field
  whose response key \<open>id\<close> is the caller's alias.
\<close>

theorem links_ts_transform_collides:
  "links_ts_transform (ex_link\<lparr>batchMode := True\<rparr>) (GraphQLScalarType ''ID'') (JArr [JNum 1]) ex_caller =
     Inr \<lparr>pq_operation =
            \<lparr>operation = ''query'',
             variableDefinitions = Some
               [VariableDefinition ''param'' (NamedType ''String''),
                VariableDefinition ''param'' (NonNullType (ListType (NonNullType (NamedType ''ID''))))],
             selectionSet =
               [Field None ''user'' [Argument ''id'' (Variable ''param'')]
                  [Field (Some ''id'') ''legacyId'' [] [], Field None ''name'' [] [],
                   Field None ''id'' [] []]]\<rparr>,
          pq_fragments = [],
          pq_variables = [(''param'', JArr [JNum 1])]\<rparr>
   \<and> \<not> distinct (variable_names
         [VariableDefinition ''param'' (NamedType ''String''),
          VariableDefinition ''param'' (NonNullType (ListType (NonNullType (NamedType ''ID''))))])
   \<and> \<not> distinct (response_keys
         [Field (Some ''id'') ''legacyId'' [] [], Field None ''name'' [] [], Field None ''id'' [] []])
   \<and> pq_variables ex_caller = [(''param'', JStr ''x'')]"
  by (simp add: links_ts_transform_def ex_link_def ex_caller_def createNestedArgumentWithVariableNode_def
      varName_def keyField_set_def createVariableDefinitionNode_def variable_names_def
      response_keys_def)

section \<open>An empty argument path\<close>

lemma createNested_empty:
  "hd (js_split CHR ''.'' path) = [] \<Longrightarrow>
   createNestedArgumentWithVariableNode path v = Inl ArgumentMustNotBeEmpty"
  by (cases "js_split CHR ''.'' path") (auto simp: createNestedArgumentWithVariableNode_def)

lemma links_ts_transform_empty:
  "argument link = [] \<Longrightarrow> links_ts_transform link ot value q = Inl ArgumentMustNotBeEmpty"
  by (simp add: links_ts_transform_def createNested_empty)

lemma part_000_basicResolve_empty:
  assumes "argument link = []"
  shows "fst (part_000_basicResolve imports te link ot value info st) = Inl ArgumentMustNotBeEmpty
       \<and> dispatched (snd (part_000_basicResolve imports te link ot value info st)) = dispatched st"
  using assms
  by (auto simp: part_000_basicResolve_def Let_def createNested_empty split: prod.splits option.splits)

lemma transformField_installs:
  assumes "type_name (oldOuterType context) = Some outer"
    and "splitTypeName gp endpoints outer = Some split"
    and "endpointMap_get endpoints (split_endpoint split) = Some ep"
    and "map_of (links ep) (originalTypeName split @ ''.'' @ config_name config) = Some link"
    and "endpointMap_get endpoints (endpoint link) = Some targetEndpoint"
    and "queryType merged = Some (GraphQLObjectType qn qfields)"
    and "map_of qfields (endpoint_name targetEndpoint) = Some (GraphQLObjectType en efields, r)"
    and "map_of efields (field link) = Some (ftype, fr)"
  shows "transformField gp endpoints merged config context =
     Inr (config\<lparr>config_type := getNamedType (mapType context ftype),
                 config_resolve := Some (LinkResolver link (config_type config) targetEndpoint)\<rparr>)"
  using assms by (simp add: transformField_def)

lemma keys_map_rejected:
  assumes "\<And>key st. f key st = (Inl e, st)"
  shows "keys_map f keys st = (map (\<lambda>key. JPromise (Inl e)) keys, st)"
proof (induction keys arbitrary: st)
  case Nil
  then show ?case by simp
next
  case (Cons key keys)
  show ?case by (simp add: assms[of key st] Cons.IH)
qed

lemma part_000_basicResolve_empty_without_batchMode:
  assumes "argument link = []" and "\<not> batchMode link"
  shows "part_000_basicResolve imports te link ot value info st = (Inl ArgumentMustNotBeEmpty, st)"
  using assms
  by (auto simp: part_000_basicResolve_def Let_def createNested_empty split: prod.splits option.splits)

lemma part_000_resolveBatch_empty:
  assumes "argument link = []"
  shows "fst (part_000_resolveBatch imports te link ot meanwhile keys info st) =
           (if batchMode link then Inl ArgumentMustNotBeEmpty
            else Inr (JArr (map (\<lambda>key. JPromise (Inl ArgumentMustNotBeEmpty)) keys)))
       \<and> (\<exists>st1. snd (part_000_resolveBatch imports te link ot meanwhile keys info st) = meanwhile st1
                \<and> dispatched st1 = dispatched st)"
proof (cases "batchMode link")
  case True
  obtain r st1 where b: "part_000_basicResolve imports te link ot (JArr keys) info st = (r, st1)"
    by (cases "part_000_basicResolve imports te link ot (JArr keys) info st")
  from part_000_basicResolve_empty[OF assms, of "imports" te ot "JArr keys" info st] b
  have "r = Inl ArgumentMustNotBeEmpty" and "dispatched st1 = dispatched st" by simp_all
  with True b show ?thesis
    by (auto simp: part_000_resolveBatch_def intro: exI[of _ st1])
next
  case False
  have "keys_map (\<lambda>key. part_000_basicResolve imports te link ot key info) keys st =
          (map (\<lambda>key. JPromise (Inl ArgumentMustNotBeEmpty)) keys, st)"
    by (rule keys_map_rejected) (rule part_000_basicResolve_empty_without_batchMode[OF assms False])
  with False show ?thesis
    by (auto simp: part_000_resolveBatch_def intro: exI[of _ st])
qed

lemma resolve_truthy:
  assumes "link_value source info = Some v" and "truthy v"
  shows "resolve dataLoaders source request info =
           (Inr (Future (length (case dataLoaders request of None \<Rightarrow> [] | Some dl0 \<Rightarrow> queue dl0))),
            dataLoaders(request \<mapsto>
              \<lparr>batch_info = (case dataLoaders request of None \<Rightarrow> info | Some dl0 \<Rightarrow> batch_info dl0),
               queue = (case dataLoaders request of None \<Rightarrow> [] | Some dl0 \<Rightarrow> queue dl0) @ [v]\<rparr>))"
proof (cases "dataLoaders request")
  case None
  then show ?thesis
    using assms(2) resolve_link_value_Some[OF assms(1), of dataLoaders request]
    by (simp add: Let_def)
next
  case (Some dl0)
  then show ?thesis
    using assms(2) resolve_link_value_Some[OF assms(1), of dataLoaders request]
    by (cases dl0) (simp add: Let_def)
qed

text \<open>
  C7, as the sources have it. A link declared with an empty argument path passes
  \<^verbatim>\<open>transformField\<close>: where the link, its target endpoint and the target field are found,
  the resolver is installed and composition goes on (\<^verbatim>\<open>part_000\<close> makes the same lookups,
  with the type name split by a function it imports). The error is raised at resolution.
  An invocation of the installed resolver whose link value is not falsy queues that value
  on the loader of its request. When that loader is flushed, \<^verbatim>\<open>resolveBatch\<close> of \<^verbatim>\<open>part_000\<close>
  makes no dispatch: in batch mode the batch is rejected with the error of the argument
  builder, without batch mode every key gets a promise rejected with it. In \<^verbatim>\<open>links.ts\<close>
  the \<^verbatim>\<open>transform\<close> callback handed to \<^verbatim>\<open>resolveAsProxy\<close> throws that error on every query
  it is given.
\<close>

theorem empty_argument_raised_at_resolution:
  assumes "argument link = []"
    and "type_name (oldOuterType context) = Some outer"
    and "splitTypeName gp endpoints outer = Some split"
    and "endpointMap_get endpoints (split_endpoint split) = Some ep"
    and "map_of (links ep) (originalTypeName split @ ''.'' @ config_name config) = Some link"
    and "endpointMap_get endpoints (endpoint link) = Some targetEndpoint"
    and "queryType merged = Some (GraphQLObjectType qn qfields)"
    and "map_of qfields (endpoint_name targetEndpoint) = Some (GraphQLObjectType en efields, r)"
    and "map_of efields (field link) = Some (ftype, fr)"
    and "link_value source info = Some v" and "truthy v"
  shows "transformField gp endpoints merged config context =
           Inr (config\<lparr>config_type := getNamedType (mapType context ftype),
                       config_resolve := Some (LinkResolver link (config_type config) targetEndpoint)\<rparr>)
       \<and> links_ts_transform link (config_type config) key q = Inl ArgumentMustNotBeEmpty
       \<and> (\<exists>future dl st1.
             resolve dataLoaders source request info =
               (Inr (Future future), dataLoaders(request \<mapsto> dl))
           \<and> v \<in> set (queue dl)
           \<and> fst (flush (part_000_resolveBatch deps te link (config_type config) meanwhile) dl st) =
               (if batchMode link then Inl ArgumentMustNotBeEmpty
                else Inr (JArr (map (\<lambda>key. JPromise (Inl ArgumentMustNotBeEmpty)) (queue dl))))
           \<and> snd (flush (part_000_resolveBatch deps te link (config_type config) meanwhile) dl st) =
               meanwhile st1
           \<and> dispatched st1 = dispatched st)"
proof (intro conjI)
  show "transformField gp endpoints merged config context =
           Inr (config\<lparr>config_type := getNamedType (mapType context ftype),
                       config_resolve := Some (LinkResolver link (config_type config) targetEndpoint)\<rparr>)"
    by (rule transformField_installs[OF assms(2-9)])
  show "links_ts_transform link (config_type config) key q = Inl ArgumentMustNotBeEmpty"
    by (rule links_ts_transform_empty[OF assms(1)])
  obtain future dl where
      r: "resolve dataLoaders source request info = (Inr (Future future), dataLoaders(request \<mapsto> dl))"
    and qd: "queue dl = (case dataLoaders request of None \<Rightarrow> [] | Some dl0 \<Rightarrow> queue dl0) @ [v]"
    using resolve_truthy[OF assms(10,11), of dataLoaders request] by simp
  from part_000_resolveBatch_empty[OF assms(1), of deps te "config_type config" meanwhile
      "queue dl" "batch_info dl" st]
  obtain st1 where
      f: "fst (part_000_resolveBatch deps te link (config_type config) meanwhile (queue dl) (batch_info dl) st) =
           (if batchMode link then Inl ArgumentMustNotBeEmpty
            else Inr (JArr (map (\<lambda>key. JPromise (Inl ArgumentMustNotBeEmpty)) (queue dl))))"
    and s: "snd (part_000_resolveBatch deps te link (config_type config) meanwhile (queue dl) (batch_info dl) st) = meanwhile st1"
    and d: "dispatched st1 = dispatched st"
    by blast
  show "\<exists>future dl st1.
             resolve dataLoaders source request info =
               (Inr (Future future), dataLoaders(request \<mapsto> dl))
           \<and> v \<in> set (queue dl)
           \<and> fst (flush (part_000_resolveBatch deps te link (config_type config) meanwhile) dl st) =
               (if batchMode link then Inl ArgumentMustNotBeEmpty
                else Inr (JArr (map (\<lambda>key. JPromise (Inl ArgumentMustNotBeEmpty)) (queue dl))))
           \<and> snd (flush (part_000_resolveBatch deps te link (config_type config) meanwhile) dl st) =
               meanwhile st1
           \<and> dispatched st1 = dispatched st"
    using r qd f s d by (intro exI[of _ future] exI[of _ dl] exI[of _ st1]) (simp add: flush_def)
qed

theorem empty_argument_raised_at_resolution_witness:
  "transformField ex_getTypePrefix ex_endpoints ex_merged ex_config ex_context =
     Inr \<lparr>config_name = ''author'', config_type = GraphQLObjectType ''users_User'' [],
          config_resolve = Some (LinkResolver ex_empty_link (GraphQLScalarType ''ID'')
             \<lparr>endpoint_name = ''users'', url = ''http://users'', links = []\<rparr>)\<rparr>
   \<and> links_ts_transform ex_empty_link (GraphQLScalarType ''ID'') (JNum 1) ex_caller =
       Inl ArgumentMustNotBeEmpty
   \<and> (\<exists>future dl.
         resolve (\<lambda>c. None) (JObj [(''author'', JNum 1)]) (1::nat) ex_info =
           (Inr (Future future), (\<lambda>c. None)(1 \<mapsto> dl))
       \<and> JNum 1 \<in> set (queue dl)
       \<and> fst (flush (part_000_resolveBatch ex_imports ex_endpoint ex_empty_link
                        (GraphQLScalarType ''ID'') id) dl ex_state) = Inl ArgumentMustNotBeEmpty
       \<and> dispatched (snd (flush (part_000_resolveBatch ex_imports ex_endpoint ex_empty_link
                        (GraphQLScalarType ''ID'') id) dl ex_state)) = [])"
proof -
  have lv: "link_value (JObj [(''author'', JNum 1)]) ex_info = Some (JNum 1)"
    by (simp add: link_value_def ex_info_def get_prop_def)
  have e: "argument ex_empty_link = []"
    by (simp add: ex_empty_link_def)
  have h2: "type_name (oldOuterType ex_context) = Some ''posts_Post''"
    by (simp add: ex_context_def)
  have h3: "splitTypeName ex_getTypePrefix ex_endpoints ''posts_Post'' =
      Some \<lparr>split_endpoint = ''posts'', originalTypeName = ''Post''\<rparr>"
    by (simp add: ex_getTypePrefix_def ex_endpoints_def)
  have h4: "endpointMap_get ex_endpoints
        (split_endpoint \<lparr>split_endpoint = ''posts'', originalTypeName = ''Post''\<rparr>) =
      Some \<lparr>endpoint_name = ''posts'', url = ''http://posts'',
            links = [(''Post.author'', ex_empty_link)]\<rparr>"
    by (simp add: endpointMap_get_def ex_endpoints_def)
  have h5: "map_of (links \<lparr>endpoint_name = ''posts'', url = ''http://posts'',
            links = [(''Post.author'', ex_empty_link)]\<rparr>)
        (originalTypeName \<lparr>split_endpoint = ''posts'', originalTypeName = ''Post''\<rparr>
           @ ''.'' @ config_name ex_config) = Some ex_empty_link"
    by (simp add: ex_config_def)
  have h6: "endpointMap_get ex_endpoints (endpoint ex_empty_link) =
      Some \<lparr>endpoint_name = ''users'', url = ''http://users'', links = []\<rparr>"
    by (simp add: endpointMap_get_def ex_endpoints_def ex_empty_link_def)
  have h7: "queryType ex_merged = Some (GraphQLObjectType ''Query''
        [(''posts'', GraphQLObjectType ''posts_Query''
                      [(''post'', GraphQLObjectType ''posts_Post'' [], None)], None),
         (''users'', GraphQLObjectType ''users_Query''
                      [(''user'', GraphQLNonNull (GraphQLObjectType ''users_User'' []), None)], None)])"
    by (simp add: ex_merged_def)
  have h8: "map_of [(''posts'', GraphQLObjectType ''posts_Query''
                      [(''post'', GraphQLObjectType ''posts_Post'' [], None)], None),
         (''users'', GraphQLObjectType ''users_Query''
                      [(''user'', GraphQLNonNull (GraphQLObjectType ''users_User'' []), None)], None)]
        (endpoint_name \<lparr>endpoint_name = ''users'', url = ''http://users'', links = []\<rparr>) =
      Some (GraphQLObjectType ''users_Query''
              [(''user'', GraphQLNonNull (GraphQLObjectType ''users_User'' []), None)], None)"
    by simp
  have h9: "map_of [(''user'', GraphQLNonNull (GraphQLObjectType ''users_User'' []), None)]
        (field ex_empty_link) = Some (GraphQLNonNull (GraphQLObjectType ''users_User'' []), None)"
    by (simp add: ex_empty_link_def)
  have t: "truthy (JNum 1)" by simp
  from empty_argument_raised_at_resolution
         [where dataLoaders = "\<lambda>c. None" and request = "1::nat" and deps = ex_imports
            and te = ex_endpoint and meanwhile = id and st = ex_state
            and key = "JNum 1" and q = ex_caller,
          OF e h2 h3 h4 h5 h6 h7 h8 h9 lv t]
  have tf: "transformField ex_getTypePrefix ex_endpoints ex_merged ex_config ex_context =
           Inr (ex_config\<lparr>config_type := getNamedType (mapType ex_context
                                (GraphQLNonNull (GraphQLObjectType ''users_User'' []))),
                       config_resolve := Some (LinkResolver ex_empty_link (config_type ex_config)
                          \<lparr>endpoint_name = ''users'', url = ''http://users'', links = []\<rparr>)\<rparr>)"
    and lt: "links_ts_transform ex_empty_link (config_type ex_config) (JNum 1) ex_caller =
           Inl ArgumentMustNotBeEmpty"
    and ex: "\<exists>future dl st1.
             resolve (\<lambda>c. None) (JObj [(''author'', JNum 1)]) (1::nat) ex_info =
               (Inr (Future future), (\<lambda>c. None)(1 \<mapsto> dl))
           \<and> JNum 1 \<in> set (queue dl)
           \<and> fst (flush (part_000_resolveBatch ex_imports ex_endpoint ex_empty_link
                           (config_type ex_config) id) dl ex_state) =
               (if batchMode ex_empty_link then Inl ArgumentMustNotBeEmpty
                else Inr (JArr (map (\<lambda>key. JPromise (Inl ArgumentMustNotBeEmpty)) (queue dl))))
           \<and> snd (flush (part_000_resolveBatch ex_imports ex_endpoint ex_empty_link
                           (config_type ex_config) id) dl ex_state) = id st1
           \<and> dispatched st1 = dispatched ex_state"
    by simp_all
  from ex obtain future dl st1 where
      r: "resolve (\<lambda>c. None) (JObj [(''author'', JNum 1)]) (1::nat) ex_info =
               (Inr (Future future), (\<lambda>c. None)(1 \<mapsto> dl))"
    and m: "JNum 1 \<in> set (queue dl)"
    and f: "fst (flush (part_000_resolveBatch ex_imports ex_endpoint ex_empty_link
                           (config_type ex_config) id) dl ex_state) =
               (if batchMode ex_empty_link then Inl ArgumentMustNotBeEmpty
                else Inr (JArr (map (\<lambda>key. JPromise (Inl ArgumentMustNotBeEmpty)) (queue dl))))"
    and s: "snd (flush (part_000_resolveBatch ex_imports ex_endpoint ex_empty_link
                           (config_type ex_config) id) dl ex_state) = id st1"
    and d: "dispatched st1 = dispatched ex_state"
    by (elim exE conjE)
  have "\<exists>future dl.
         resolve (\<lambda>c. None) (JObj [(''author'', JNum 1)]) (1::nat) ex_info =
           (Inr (Future future), (\<lambda>c. None)(1 \<mapsto> dl))
       \<and> JNum 1 \<in> set (queue dl)
       \<and> fst (flush (part_000_resolveBatch ex_imports ex_endpoint ex_empty_link
                        (GraphQLScalarType ''ID'') id) dl ex_state) = Inl ArgumentMustNotBeEmpty
       \<and> dispatched (snd (flush (part_000_resolveBatch ex_imports ex_endpoint ex_empty_link
                        (GraphQLScalarType ''ID'') id) dl ex_state)) = []"
    using r m f s d
    by (intro exI[of _ future] exI[of _ dl]) (simp add: ex_config_def ex_empty_link_def ex_state_def)
  then show ?thesis
    using tf lt by (simp add: ex_config_def ex_context_def)
qed

text \<open>
  The configuration of the example is accepted by \<^verbatim>\<open>transformField\<close> although the argument
  path of its link is empty; the error comes when the link is resolved, from the
  \<^verbatim>\<open>transform\<close> callback of \<^verbatim>\<open>links.ts\<close> and from \<^verbatim>\<open>resolveBatch\<close> of \<^verbatim>\<open>part_000\<close>.
\<close>

theorem empty_argument_passes_composition:
  "argument ex_empty_link = []
   \<and> transformField ex_getTypePrefix ex_endpoints ex_merged ex_config ex_context =
       Inr \<lparr>config_name = ''author'', config_type = GraphQLObjectType ''users_User'' [],
            config_resolve = Some (LinkResolver ex_empty_link (GraphQLScalarType ''ID'')
               \<lparr>endpoint_name = ''users'', url = ''http://users'', links = []\<rparr>)\<rparr>
   \<and> links_ts_transform ex_empty_link (GraphQLScalarType ''ID'') (JArr [JNum 1]) ex_caller =
       Inl ArgumentMustNotBeEmpty
   \<and> part_000_resolveBatch ex_imports ex_endpoint ex_empty_link (GraphQLScalarType ''ID'') id
        [JNum 1] ex_info ex_state
       = (Inl ArgumentMustNotBeEmpty, ex_state)"
proof (intro conjI)
  show "argument ex_empty_link = []"
    by (simp add: ex_empty_link_def)
  show "transformField ex_getTypePrefix ex_endpoints ex_merged ex_config ex_context =
       Inr \<lparr>config_name = ''author'', config_type = GraphQLObjectType ''users_User'' [],
            config_resolve = Some (LinkResolver ex_empty_link (GraphQLScalarType ''ID'')
               \<lparr>endpoint_name = ''users'', url = ''http://users'', links = []\<rparr>)\<rparr>"
    by (simp add: transformField_def ex_getTypePrefix_def ex_endpoints_def ex_merged_def
        ex_config_def ex_context_def endpointMap_get_def ex_empty_link_def)
  show "links_ts_transform ex_empty_link (GraphQLScalarType ''ID'') (JArr [JNum 1]) ex_caller =
       Inl ArgumentMustNotBeEmpty"
    by (simp add: links_ts_transform_def ex_empty_link_def createNestedArgumentWithVariableNode_def)
  show "part_000_resolveBatch ex_imports ex_endpoint ex_empty_link (GraphQLScalarType ''ID'') id
        [JNum 1] ex_info ex_state
       = (Inl ArgumentMustNotBeEmpty, ex_state)"
    by (simp add: part_000_resolveBatch_def part_000_basicResolve_def ex_imports_def
        ex_empty_link_def ex_info_def ex_state_def keyField_set_def
        createNestedArgumentWithVariableNode_def createVariableDefinitionNode_def)
qed

section \<open>The sub-query of a batch\<close>

lemma part_000_basicResolve_dispatches:
  assumes "addVariableDefinitionSafely imports
             (qp_variableDefinitions (getFieldAsQueryParts imports info))
             (last (js_split CHR ''.'' (argument link)))
             (if batchMode link then GraphQLNonNull (GraphQLList (getNonNullType ot)) else ot)
           = (defs, var)"
    and "createNestedArgumentWithVariableNode (argument link) var = Inr arg"
    and "sel = (case keyField_set link of
                  None \<Rightarrow> qp_selectionSet (getFieldAsQueryParts imports info)
                | Some kf \<Rightarrow>
                    if batchMode link
                    then snd (addFieldSelectionSafely imports
                                (qp_selectionSet (getFieldAsQueryParts imports info)) kf
                                (arrayToObject imports
                                   (qp_fragments (getFieldAsQueryParts imports info)) fragment_name))
                    else qp_selectionSet (getFieldAsQueryParts imports info))"
  shows "dispatched (snd (part_000_basicResolve imports te link ot value info st)) =
           dispatched st
           @ [(Document (map FragmentDef (qp_fragments (getFieldAsQueryParts imports info))
                 @ [OperationDef
                      \<lparr>operation = ''query'',
                       variableDefinitions = Some defs,
                       selectionSet = [Field None (field link) [arg] sel]\<rparr>]),
               AList.update var value (qp_variableValues (getFieldAsQueryParts imports info)))]"
  using assms
  by (auto simp: part_000_basicResolve_def Let_def split: option.splits sum.splits prod.splits)

lemma keys_map_dispatched:
  assumes "\<And>key st. dispatched (snd (f key st)) = dispatched st @ [q key]"
  shows "dispatched (snd (keys_map f keys st)) = dispatched st @ map q keys"
proof (induction keys arbitrary: st)
  case Nil
  then show ?case by simp
next
  case (Cons key keys)
  obtain r st1 where f: "f key st = (r, st1)" by (cases "f key st")
  obtain rs st2 where k: "keys_map f keys st1 = (rs, st2)" by (cases "keys_map f keys st1")
  from assms[of key st] f have "dispatched st1 = dispatched st @ [q key]" by simp
  moreover from Cons.IH[of st1] k have "dispatched st2 = dispatched st1 @ map q keys" by simp
  ultimately show ?case using f k by simp
qed

lemma part_000_resolveBatch_dispatches:
  assumes "addVariableDefinitionSafely imports
             (qp_variableDefinitions (getFieldAsQueryParts imports info))
             (last (js_split CHR ''.'' (argument link)))
             (if batchMode link then GraphQLNonNull (GraphQLList (getNonNullType ot)) else ot)
           = (defs, var)"
    and "createNestedArgumentWithVariableNode (argument link) var = Inr arg"
    and "sel = (case keyField_set link of
                  None \<Rightarrow> qp_selectionSet (getFieldAsQueryParts imports info)
                | Some kf \<Rightarrow>
                    if batchMode link
                    then snd (addFieldSelectionSafely imports
                                (qp_selectionSet (getFieldAsQueryParts imports info)) kf
                                (arrayToObject imports
                                   (qp_fragments (getFieldAsQueryParts imports info)) fragment_name))
                    else qp_selectionSet (getFieldAsQueryParts imports info))"
  shows "\<exists>st1. snd (part_000_resolveBatch imports te link ot meanwhile keys info st) = meanwhile st1
     \<and> dispatched st1 =
         dispatched st
         @ map (\<lambda>value.
                  (Document (map FragmentDef (qp_fragments (getFieldAsQueryParts imports info))
                     @ [OperationDef
                          \<lparr>operation = ''query'',
                           variableDefinitions = Some defs,
                           selectionSet = [Field None (field link) [arg] sel]\<rparr>]),
                   AList.update var value (qp_variableValues (getFieldAsQueryParts imports info))))
               (if batchMode link then [JArr keys] else keys)"
proof (cases "batchMode link")
  case True
  obtain r st1 where b: "part_000_basicResolve imports te link ot (JArr keys) info st = (r, st1)"
    by (cases "part_000_basicResolve imports te link ot (JArr keys) info st")
  from part_000_basicResolve_dispatches[OF assms, of te "JArr keys" st] b
  have d: "dispatched st1 = dispatched st
           @ [(Document (map FragmentDef (qp_fragments (getFieldAsQueryParts imports info))
                 @ [OperationDef
                      \<lparr>operation = ''query'',
                       variableDefinitions = Some defs,
                       selectionSet = [Field None (field link) [arg] sel]\<rparr>]),
               AList.update var (JArr keys) (qp_variableValues (getFieldAsQueryParts imports info)))]"
    by simp
  have "snd (part_000_resolveBatch imports te link ot meanwhile keys info st) = meanwhile st1"
    using True b by (simp add: part_000_resolveBatch_def Let_def split: sum.splits)
  with d True show ?thesis by (intro exI[of _ st1]) simp
next
  case False
  obtain ps st1 where k: "keys_map (\<lambda>key. part_000_basicResolve imports te link ot key info) keys st = (ps, st1)"
    by (cases "keys_map (\<lambda>key. part_000_basicResolve imports te link ot key info) keys st")
  have "dispatched (snd (keys_map (\<lambda>key. part_000_basicResolve imports te link ot key info) keys st)) =
      dispatched st
      @ map (\<lambda>value.
                  (Document (map FragmentDef (qp_fragments (getFieldAsQueryParts imports info))
                     @ [OperationDef
                          \<lparr>operation = ''query'',
                           variableDefinitions = Some defs,
                           selectionSet = [Field None (field link) [arg] sel]\<rparr>]),
                   AList.update var value (qp_variableValues (getFieldAsQueryParts imports info)))) keys"
    by (rule keys_map_dispatched) (rule part_000_basicResolve_dispatches[OF assms])
  with k have d: "dispatched st1 =
      dispatched st
      @ map (\<lambda>value.
                  (Document (map FragmentDef (qp_fragments (getFieldAsQueryParts imports info))
                     @ [OperationDef
                          \<lparr>operation = ''query'',
                           variableDefinitions = Some defs,
                           selectionSet = [Field None (field link) [arg] sel]\<rparr>]),
                   AList.update var value (qp_variableValues (getFieldAsQueryParts imports info)))) keys"
    by simp
  have "snd (part_000_resolveBatch imports te link ot meanwhile keys info st) = meanwhile st1"
    using False k by (simp add: part_000_resolveBatch_def Let_def)
  with d False show ?thesis by (intro exI[of _ st1]) simp
qed

text \<open>
  C10. Of the resolver invocations of one request, the first whose link value is not falsy
  creates the loader, and the loader keeps the \<^verbatim>\<open>info\<close> of that invocation; a loader the
  table already holds for the request keeps its own. The keys of all the invocations are
  queued on it. On a flush, \<^verbatim>\<open>resolveBatch\<close> of \<^verbatim>\<open>part_000\<close> dispatches one document for the
  whole list of keys in batch mode, and one per key otherwise, and builds each of them from
  the query parts of that \<^verbatim>\<open>info\<close> alone: its fragments, its variable definitions with the
  key variable added, its variable values with the keys bound to that variable, and its
  selection set, with the key field added where batch mode and a key field are set. In
  \<^verbatim>\<open>links.ts\<close> every answer of the batch is that of \<^verbatim>\<open>resolveAsProxy\<close> called with that
  \<^verbatim>\<open>info\<close>. The \<^verbatim>\<open>info\<close> of a later invocation occurs in neither.
\<close>

theorem batch_query_of_first_loading_invocation:
  assumes "loading calls = (first_value, first_info) # others"
    and "loader_info = (case dataLoaders request of None \<Rightarrow> first_info | Some dl0 \<Rightarrow> batch_info dl0)"
    and "keys = (case dataLoaders request of None \<Rightarrow> [] | Some dl0 \<Rightarrow> queue dl0)
                @ first_value # map fst others"
    and "addVariableDefinitionSafely deps
             (qp_variableDefinitions (getFieldAsQueryParts deps loader_info))
             (last (js_split CHR ''.'' (argument link)))
             (if batchMode link then GraphQLNonNull (GraphQLList (getNonNullType ot)) else ot)
           = (defs, var)"
    and "createNestedArgumentWithVariableNode (argument link) var = Inr arg"
    and "sel = (case keyField_set link of
                  None \<Rightarrow> qp_selectionSet (getFieldAsQueryParts deps loader_info)
                | Some kf \<Rightarrow>
                    if batchMode link
                    then snd (addFieldSelectionSafely deps
                                (qp_selectionSet (getFieldAsQueryParts deps loader_info)) kf
                                (arrayToObject deps
                                   (qp_fragments (getFieldAsQueryParts deps loader_info)) fragment_name))
                    else qp_selectionSet (getFieldAsQueryParts deps loader_info))"
    and "answer = (\<lambda>value.
                     case resolveAsProxy loader_info
                            \<lparr>pc_url = url targetEndpoint, pc_operation = ''query'',
                             pc_links = all_links,
                             pc_typeRenamer = getReverseTypeRenamer targetEndpoint,
                             pc_transform = links_ts_transform link ot value\<rparr> of
                       Inl e \<Rightarrow> Inl e
                     | Inr obj \<Rightarrow> get_prop obj (field link))"
  shows "\<exists>dl st1.
       resolve_all dataLoaders request calls request = Some dl
     \<and> snd (flush (part_000_resolveBatch deps te link ot meanwhile) dl st) = meanwhile st1
     \<and> dispatched st1 =
         dispatched st
         @ map (\<lambda>value.
                  (Document (map FragmentDef (qp_fragments (getFieldAsQueryParts deps loader_info))
                     @ [OperationDef
                          \<lparr>operation = ''query'',
                           variableDefinitions = Some defs,
                           selectionSet = [Field None (field link) [arg] sel]\<rparr>]),
                   AList.update var value (qp_variableValues (getFieldAsQueryParts deps loader_info))))
               (if batchMode link then [JArr keys] else keys)
     \<and> flush (links_ts_resolveBatch
                (links_ts_basicResolve resolveAsProxy getReverseTypeRenamer all_links
                   targetEndpoint link ot) link) dl =
         (case (if batchMode link then answer (JArr keys)
                else Inr (JArr (map (\<lambda>key. JPromise (answer key)) keys))) of
            Inl e \<Rightarrow> Inl e
          | Inr result \<Rightarrow>
              (case keyField_set link of
                 None \<Rightarrow> Inr result
               | Some kf \<Rightarrow> remap kf result keys))"
proof -
  let ?dl = "\<lparr>batch_info = loader_info, queue = keys\<rparr>"
  have dl: "resolve_all dataLoaders request calls request = Some ?dl"
    using assms(1,2,3) by (simp add: resolve_all_loader split: option.splits)
  from part_000_resolveBatch_dispatches[OF assms(4,5,6), of te meanwhile keys st]
  obtain st1 where
      s: "snd (part_000_resolveBatch deps te link ot meanwhile keys loader_info st) = meanwhile st1"
    and d: "dispatched st1 =
         dispatched st
         @ map (\<lambda>value.
                  (Document (map FragmentDef (qp_fragments (getFieldAsQueryParts deps loader_info))
                     @ [OperationDef
                          \<lparr>operation = ''query'',
                           variableDefinitions = Some defs,
                           selectionSet = [Field None (field link) [arg] sel]\<rparr>]),
                   AList.update var value (qp_variableValues (getFieldAsQueryParts deps loader_info))))
               (if batchMode link then [JArr keys] else keys)"
    by blast
  have lt: "flush (links_ts_resolveBatch
                (links_ts_basicResolve resolveAsProxy getReverseTypeRenamer all_links
                   targetEndpoint link ot) link) ?dl =
         (case (if batchMode link then answer (JArr keys)
                else Inr (JArr (map (\<lambda>key. JPromise (answer key)) keys))) of
            Inl e \<Rightarrow> Inl e
          | Inr result \<Rightarrow>
              (case keyField_set link of
                 None \<Rightarrow> Inr result
               | Some kf \<Rightarrow> remap kf result keys))"
    by (simp add: flush_def links_ts_resolveBatch_def links_ts_basicResolve_def assms(7))
  show ?thesis
    using dl s d lt by (intro exI[of _ ?dl] exI[of _ st1]) (simp add: flush_def)
qed

theorem batch_query_of_first_loading_invocation_witness:
  "\<exists>dl. resolve_all (\<lambda>c. None) (1::nat)
       [(JObj [(''author'', JNull)], ex_info\<lparr>info_variableValues := [(''n'', JNum 0)]\<rparr>),
        (JObj [(''author'', JNum 4)], ex_info\<lparr>info_variableValues := [(''n'', JNum 1)]\<rparr>),
        (JObj [(''author'', JNum 5)], ex_info\<lparr>fieldNodes := [Field None ''author'' [] [Field None ''email'' [] []]],
                 info_variableValues := [(''n'', JNum 2)]\<rparr>)] 1 = Some dl
     \<and> dispatched (snd (flush (part_000_resolveBatch ex_imports ex_partial_endpoint ex_batch_link
                               (GraphQLScalarType ''ID'') id) dl ex_state)) =
         [(Document
            [OperationDef
              \<lparr>operation = ''query'',
               variableDefinitions = Some
                 [VariableDefinition ''ids'' (NonNullType (ListType (NonNullType (NamedType ''ID''))))],
               selectionSet =
                 [Field None ''user'' [Argument ''filter'' (ObjectValue [(''ids'', Variable ''ids'')])]
                    [Field None ''name'' [] [], Field None ''id'' [] []]]\<rparr>],
           [(''n'', JNum 1), (''ids'', JArr [JNum 4, JNum 5])])]"
proof -
  let ?info1 = "ex_info\<lparr>info_variableValues := [(''n'', JNum 1)]\<rparr>"
  have l: "loading
       [(JObj [(''author'', JNull)], ex_info\<lparr>info_variableValues := [(''n'', JNum 0)]\<rparr>),
        (JObj [(''author'', JNum 4)], ex_info\<lparr>info_variableValues := [(''n'', JNum 1)]\<rparr>),
        (JObj [(''author'', JNum 5)], ex_info\<lparr>fieldNodes := [Field None ''author'' [] [Field None ''email'' [] []]],
                 info_variableValues := [(''n'', JNum 2)]\<rparr>)]
     = (JNum 4, ?info1) # [(JNum 5, ex_info\<lparr>fieldNodes := [Field None ''author'' [] [Field None ''email'' [] []]],
                 info_variableValues := [(''n'', JNum 2)]\<rparr>)]"
    by (simp add: loading_def link_value_def get_prop_def ex_info_def)
  have i: "?info1 = (case (\<lambda>c. None) (1::nat) of None \<Rightarrow> ?info1 | Some dl0 \<Rightarrow> batch_info dl0)"
    by simp
  have k: "[JNum 4, JNum 5] =
        (case (\<lambda>c. None) (1::nat) of None \<Rightarrow> [] | Some dl0 \<Rightarrow> queue dl0)
        @ JNum 4 # map fst [(JNum 5, ex_info\<lparr>fieldNodes := [Field None ''author'' [] [Field None ''email'' [] []]],
                 info_variableValues := [(''n'', JNum 2)]\<rparr>)]"
    by simp
  have v: "addVariableDefinitionSafely ex_imports
             (qp_variableDefinitions (getFieldAsQueryParts ex_imports ?info1))
             (last (js_split CHR ''.'' (argument ex_batch_link)))
             (if batchMode ex_batch_link
              then GraphQLNonNull (GraphQLList (getNonNullType (GraphQLScalarType ''ID'')))
              else GraphQLScalarType ''ID'')
           = ([VariableDefinition ''ids'' (NonNullType (ListType (NonNullType (NamedType ''ID''))))],
              ''ids'')"
    by (simp add: ex_imports_def ex_info_def ex_batch_link_def createVariableDefinitionNode_def)
  have a: "createNestedArgumentWithVariableNode (argument ex_batch_link) ''ids'' =
        Inr (Argument ''filter'' (ObjectValue [(''ids'', Variable ''ids'')]))"
    by (simp add: ex_batch_link_def createNestedArgumentWithVariableNode_def)
  have s: "[Field None ''name'' [] [], Field None ''id'' [] []] =
       (case keyField_set ex_batch_link of
                  None \<Rightarrow> qp_selectionSet (getFieldAsQueryParts ex_imports ?info1)
                | Some kf \<Rightarrow>
                    if batchMode ex_batch_link
                    then snd (addFieldSelectionSafely ex_imports
                                (qp_selectionSet (getFieldAsQueryParts ex_imports ?info1)) kf
                                (arrayToObject ex_imports
                                   (qp_fragments (getFieldAsQueryParts ex_imports ?info1)) fragment_name))
                    else qp_selectionSet (getFieldAsQueryParts ex_imports ?info1))"
    by (simp add: ex_imports_def ex_info_def ex_batch_link_def keyField_set_def)
  from batch_query_of_first_loading_invocation
         [where resolveAsProxy = ex_resolveAsProxy and getReverseTypeRenamer = "\<lambda>e n. n"
            and all_links = "[]" and targetEndpoint = ex_target
            and te = ex_partial_endpoint and meanwhile = id and st = ex_state
            and dataLoaders = "\<lambda>c. None" and request = "1::nat"
            and loader_info = "ex_info\<lparr>info_variableValues := [(''n'', JNum 1)]\<rparr>"
            and keys = "[JNum 4, JNum 5]" and link = ex_batch_link
            and ot = "GraphQLScalarType ''ID''" and deps = ex_imports
            and sel = "[Field None ''name'' [] [], Field None ''id'' [] []]",
          OF l i k v a s refl]
  obtain dl st1 where
      "resolve_all (\<lambda>c. None) (1::nat)
       [(JObj [(''author'', JNull)], ex_info\<lparr>info_variableValues := [(''n'', JNum 0)]\<rparr>),
        (JObj [(''author'', JNum 4)], ex_info\<lparr>info_variableValues := [(''n'', JNum 1)]\<rparr>),
        (JObj [(''author'', JNum 5)], ex_info\<lparr>fieldNodes := [Field None ''author'' [] [Field None ''email'' [] []]],
                 info_variableValues := [(''n'', JNum 2)]\<rparr>)] 1 = Some dl"
    and "snd (flush (part_000_resolveBatch ex_imports ex_partial_endpoint ex_batch_link
                       (GraphQLScalarType ''ID'') id) dl ex_state) = id st1"
    and "dispatched st1 =
         dispatched ex_state
         @ map (\<lambda>value.
                  (Document (map FragmentDef (qp_fragments (getFieldAsQueryParts ex_imports ?info1))
                     @ [OperationDef
                          \<lparr>operation = ''query'',
                           variableDefinitions = Some
                             [VariableDefinition ''ids''
                                (NonNullType (ListType (NonNullType (NamedType ''ID''))))],
                           selectionSet = [Field None (field ex_batch_link)
                             [Argument ''filter'' (ObjectValue [(''ids'', Variable ''ids'')])]
                             [Field None ''name'' [] [], Field None ''id'' [] []]]\<rparr>]),
                   AList.update ''ids'' value
                     (qp_variableValues (getFieldAsQueryParts ex_imports ?info1))))
               (if batchMode ex_batch_link then [JArr [JNum 4, JNum 5]] else [JNum 4, JNum 5])"
    by (elim exE conjE)
  then show ?thesis
    by (intro exI[of _ dl])
       (simp add: ex_state_def ex_imports_def ex_info_def ex_batch_link_def)
qed

end
